theory Spec2Isabelle
  imports Main
begin

section \<open>The git-refs sync handler (internal/syncer/git\_refs.go)\<close>

text \<open>
  A shallow embedding of \<^verbatim>\<open>sendBatchGitRefs\<close>, the \<^verbatim>\<open>ref\<close> struct, the
  \<^verbatim>\<open>selectRefs\<close> query and \<^verbatim>\<open>handleGitRefs\<close>. The handler is a straight line of
  fallible calls to collaborators (file system, credential lookup, clone, log sink, the
  mergestat SQL engine, the Postgres pool). Each collaborator's answer is a field of the
  record \<open>env\<close>; each collaborator's effect is an update of the record \<open>world\<close>.
  Go's \<^verbatim>\<open>error\<close> return is an \<open>error option\<close> (or \<open>error + 'a\<close> when a value comes
  with it), and every \<^verbatim>\<open>return err\<close> of the source is a branch of the model.
\<close>

subsection \<open>Errors\<close>

text \<open>
  \<open>Errorf prefix err\<close> is \<^verbatim>\<open>fmt.Errorf(prefix + "%w", err)\<close>; \<open>ErrTxClosed\<close> is
  \<^verbatim>\<open>pgx.ErrTxClosed\<close>; \<open>Failure msg\<close> is any other error value of a collaborator.
\<close>

datatype error = ErrTxClosed | Failure string | Errorf string error

text \<open>\<^verbatim>\<open>errors.Is\<close>: the error itself or anything in its chain of wrapped errors.\<close>

fun errors_Is :: "error \<Rightarrow> error \<Rightarrow> bool" where
  "errors_Is (Errorf m e) target = (Errorf m e = target \<or> errors_Is e target)"
| "errors_Is ErrTxClosed target = (ErrTxClosed = target)"
| "errors_Is (Failure s) target = (Failure s = target)"

subsection \<open>Data\<close>

text \<open>\<^verbatim>\<open>sql.NullString\<close>: a string and the flag saying that it is not NULL.\<close>

record NullString =
  String :: string
  Valid :: bool

text \<open>The \<^verbatim>\<open>ref\<close> struct (lines 66-74).\<close>

record ref =
  FullName :: NullString
  Hash :: NullString
  Name :: NullString
  Remote :: NullString
  Target :: NullString
  Type :: NullString
  TagCommitHash :: NullString

text \<open>
  A UUID is represented by its canonical text, so that \<^verbatim>\<open>RepoID.String()\<close> is the
  identity on the representation; \<^verbatim>\<open>uuid.FromString\<close> stays a parameter of the
  environment, since the source checks its error.
\<close>

type_synonym uuid = string

definition UUID_String :: "uuid \<Rightarrow> string" where
  "UUID_String u = u"

text \<open>The fields of \<^verbatim>\<open>db.DequeueSyncJobRow\<close> that the handler reads.\<close>

record DequeueSyncJobRow =
  ID :: int
  RepoID :: uuid
  Repo :: string
  SyncType :: string

text \<open>
  One value of a \<^verbatim>\<open>[]interface{}\<close> row handed to \<^verbatim>\<open>CopyFrom\<close>: a UUID, a Go string,
  or \<^verbatim>\<open>nil\<close> (SQL NULL).
\<close>

datatype cell = CUuid uuid | CStr string | CNil

subsection \<open>The extraction query \<^verbatim>\<open>selectRefs\<close> (line 76)\<close>

text \<open>
  \<^verbatim>\<open>SELECT *, (CASE type WHEN 'tag' THEN COALESCE(COMMIT_FROM_TAG(tag), hash) END)
         AS tag_commit_hash FROM refs(?);\<close>
  A row of the table-valued function \<^verbatim>\<open>refs\<close> has the six visible columns that
  \<^verbatim>\<open>*\<close> selects and the hidden column \<^verbatim>\<open>tag\<close>, an opaque handle to the tag object.
  SQL values are \<open>string option\<close>, \<open>None\<close> being NULL.
\<close>

datatype tag_object = TagObject nat

record refs_row =
  full_name :: "string option"
  hash :: "string option"
  name :: "string option"
  remote :: "string option"
  target :: "string option"
  type :: "string option"
  tag :: "tag_object option"

text \<open>SQL equality is three-valued: NULL on either side gives NULL.\<close>

definition sql_eq :: "string option \<Rightarrow> string option \<Rightarrow> bool option" where
  "sql_eq a b = (case a of None \<Rightarrow> None | Some x \<Rightarrow> (case b of None \<Rightarrow> None | Some y \<Rightarrow> Some (x = y)))"

text \<open>\<^verbatim>\<open>COALESCE(a, b)\<close>: the first argument that is not NULL.\<close>

definition COALESCE :: "string option \<Rightarrow> string option \<Rightarrow> string option" where
  "COALESCE a b = (case a of Some x \<Rightarrow> Some x | None \<Rightarrow> b)"

text \<open>
  \<^verbatim>\<open>CASE base WHEN w THEN t END\<close>: \<open>t\<close> when \<open>base = w\<close> is true; with no ELSE branch
  the value is NULL in every other case (comparison false or NULL).
\<close>

definition CASE_WHEN :: "string option \<Rightarrow> string option \<Rightarrow> string option \<Rightarrow> string option" where
  "CASE_WHEN base w t = (if sql_eq base w = Some True then t else None)"

text \<open>
  The computed column. \<^verbatim>\<open>COMMIT_FROM_TAG\<close> is a function of the SQL engine, not of this
  repository: it is the parameter \<open>commit_from_tag\<close>.
\<close>

definition tag_commit_hash ::
  "(tag_object option \<Rightarrow> string option) \<Rightarrow> refs_row \<Rightarrow> string option" where
  "tag_commit_hash commit_from_tag row =
     CASE_WHEN (type row) (Some ''tag'') (COALESCE (commit_from_tag (tag row)) (hash row))"

text \<open>Scanning an SQL value into a \<^verbatim>\<open>sql.NullString\<close>.\<close>

definition Scan :: "string option \<Rightarrow> NullString" where
  "Scan v = (case v of None \<Rightarrow> \<lparr>String = [], Valid = False\<rparr>
                     | Some s \<Rightarrow> \<lparr>String = s, Valid = True\<rparr>)"

text \<open>
  One result row of \<^verbatim>\<open>selectRefs\<close> scanned into a \<^verbatim>\<open>ref\<close> by the \<^verbatim>\<open>db\<close> tags of
  the struct.
\<close>

definition selectRefs :: "(tag_object option \<Rightarrow> string option) \<Rightarrow> refs_row \<Rightarrow> ref" where
  "selectRefs commit_from_tag row =
     \<lparr>FullName = Scan (full_name row),
      Hash = Scan (hash row),
      Name = Scan (name row),
      Remote = Scan (remote row),
      Target = Scan (target row),
      Type = Scan (type row),
      TagCommitHash = Scan (tag_commit_hash commit_from_tag row)\<rparr>"

subsection \<open>Building the rows of the bulk insert (lines 18-58)\<close>

text \<open>The body of the loop of \<^verbatim>\<open>sendBatchGitRefs\<close> after the UUID is parsed.\<close>

definition nullable :: "NullString \<Rightarrow> cell" where
  "nullable f = (if Valid f then CStr (String f) else CNil)"

definition input :: "uuid \<Rightarrow> ref \<Rightarrow> cell list" where
  "input repoID r =
     [CUuid repoID, CStr (String (FullName r)), CStr (String (Name r))]
       @ [nullable (Hash r)]
       @ [nullable (Remote r)]
       @ [nullable (Target r)]
       @ [nullable (Type r)]
       @ [nullable (TagCommitHash r)]"

text \<open>
  The loop: the UUID is parsed again for every element, and a parse error returns at
  once; with an empty batch the parser is never called.
\<close>

fun inputs :: "(string \<Rightarrow> error + uuid) \<Rightarrow> DequeueSyncJobRow \<Rightarrow> ref list \<Rightarrow> cell list list
    \<Rightarrow> error + cell list list" where
  "inputs fromString j [] acc = Inr acc"
| "inputs fromString j (r # batch) acc =
     (case fromString (UUID_String (RepoID j)) of
        Inl err \<Rightarrow> Inl err
      | Inr repoID \<Rightarrow> inputs fromString j batch (acc @ [input repoID r]))"

subsection \<open>The world the handler acts on\<close>

text \<open>
  The Postgres database: the rows of \<^verbatim>\<open>git_refs\<close> in the column order of the
  \<^verbatim>\<open>CopyFrom\<close> call (\<^verbatim>\<open>repo_id, full_name, name, hash, remote, target, type,
  tag_commit_hash\<close>) and the status column of the sync queue, by job id.
\<close>

record db =
  git_refs :: "cell list list"
  sync_status :: "int \<Rightarrow> string"

datatype syncLogType = SyncLogTypeInfo

text \<open>The \<^verbatim>\<open>syncLog\<close> struct; its field \<^verbatim>\<open>Type\<close> is \<open>LogType\<close> here.\<close>

record syncLog =
  LogType :: syncLogType
  RepoSyncQueueID :: int
  Message :: string

datatype repository = Repository string

text \<open>What the two zerolog loggers are asked to write.\<close>

datatype log_event =
    Info_retrieved_refs nat
  | Info_sent_batch nat
  | Err_cleaning_up_repo string error
  | Err_could_not_rollback error

text \<open>The calls the handler makes to its collaborators, in the order it makes them.\<close>

datatype call =
    Call_MkdirTemp
  | Call_RemoveAll string
  | Call_fetchGitHubTokenFromDB
  | Call_cloneRepo string string string bool
  | Call_Free repository
  | Call_sendBatchLogMessages "syncLog list"
  | Call_SelectContext string
  | Call_BeginTx
  | Call_Exec_delete string
  | Call_CopyFrom "cell list list"
  | Call_SetSyncJobStatus string int
  | Call_Commit
  | Call_Rollback

text \<open>
  \<open>committed\<close> is what every other session of the database sees; \<open>tx\<close> is the working
  state of the handler's open transaction (\<open>None\<close>: no open transaction); \<open>dirs\<close> are the
  directories that exist; \<open>sync_logs\<close> is the log sink; \<open>oplog\<close> the operator log;
  \<open>calls\<close> the trace.
\<close>

record world =
  committed :: db
  tx :: "db option"
  dirs :: "string set"
  sync_logs :: "syncLog list"
  oplog :: "log_event list"
  calls :: "call list"

text \<open>
  The answers of the collaborators. An operation that the handler calls once has one
  answer; \<^verbatim>\<open>sendBatchLogMessages\<close>, \<^verbatim>\<open>cloneRepo\<close>, the \<^verbatim>\<open>refs\<close> table,
  \<^verbatim>\<open>uuid.FromString\<close> and \<^verbatim>\<open>CopyFrom\<close> answer by their arguments.
\<close>

record env =
  MkdirTemp_result :: "error + string"
  RemoveAll_err :: "error option"
  fetchGitHubTokenFromDB_result :: "error + string"
  cloneRepo_result :: "string \<Rightarrow> string \<Rightarrow> string \<Rightarrow> bool \<Rightarrow> error + repository"
  sendBatchLogMessages_err :: "syncLog list \<Rightarrow> error option"
  refs_table :: "string \<Rightarrow> error + refs_row list"
  COMMIT_FROM_TAG :: "tag_object option \<Rightarrow> string option"
  BeginTx_err :: "error option"
  Exec_err :: "error option"
  uuid_FromString :: "string \<Rightarrow> error + uuid"
  CopyFrom_err :: "cell list list \<Rightarrow> error option"
  SetSyncJobStatus_err :: "error option"
  Commit_err :: "error option"
  Rollback_err :: "error option"

definition called :: "call \<Rightarrow> world \<Rightarrow> world" where
  "called c w = w\<lparr>calls := calls w @ [c]\<rparr>"

definition logged :: "log_event \<Rightarrow> world \<Rightarrow> world" where
  "logged m w = w\<lparr>oplog := oplog w @ [m]\<rparr>"

subsection \<open>The collaborators\<close>

text \<open>\<^verbatim>\<open>os.MkdirTemp\<close>: a new directory, or an error and no directory.\<close>

definition MkdirTemp :: "env \<Rightarrow> world \<Rightarrow> (error + string) \<times> world" where
  "MkdirTemp e w =
     (case MkdirTemp_result e of
        Inl err \<Rightarrow> (Inl err, called Call_MkdirTemp w)
      | Inr tmpPath \<Rightarrow> (Inr tmpPath, (called Call_MkdirTemp w)\<lparr>dirs := insert tmpPath (dirs w)\<rparr>))"

text \<open>\<^verbatim>\<open>os.RemoveAll\<close>: the directory is gone when the call succeeds.\<close>

definition RemoveAll :: "env \<Rightarrow> string \<Rightarrow> world \<Rightarrow> error option \<times> world" where
  "RemoveAll e tmpPath w =
     (case RemoveAll_err e of
        Some err \<Rightarrow> (Some err, called (Call_RemoveAll tmpPath) w)
      | None \<Rightarrow> (None, (called (Call_RemoveAll tmpPath) w)\<lparr>dirs := dirs w - {tmpPath}\<rparr>))"

text \<open>
  Modelled from the spec: \<^verbatim>\<open>fetchGitHubTokenFromDB\<close> is not in the source file; the
  credential collaborator "returns a token or fails".
\<close>

definition fetchGitHubTokenFromDB :: "env \<Rightarrow> world \<Rightarrow> (error + string) \<times> world" where
  "fetchGitHubTokenFromDB e w =
     (fetchGitHubTokenFromDB_result e, called Call_fetchGitHubTokenFromDB w)"

text \<open>
  Modelled from the spec: \<^verbatim>\<open>cloneRepo\<close> is not in the source file; it produces the working
  copy in the given directory and a repository handle, or fails.
\<close>

definition cloneRepo ::
  "env \<Rightarrow> string \<Rightarrow> string \<Rightarrow> string \<Rightarrow> bool \<Rightarrow> world \<Rightarrow> (error + repository) \<times> world" where
  "cloneRepo e ghToken url tmpPath bare w =
     (cloneRepo_result e ghToken url tmpPath bare, called (Call_cloneRepo ghToken url tmpPath bare) w)"

definition Free :: "repository \<Rightarrow> world \<Rightarrow> world" where
  "Free repo w = called (Call_Free repo) w"

text \<open>
  Modelled from the spec: \<^verbatim>\<open>sendBatchLogMessages\<close> is not in the source file; it forwards
  the batch to the log sink as a group, outside the handler's transaction, or fails and
  forwards nothing.
\<close>

definition sendBatchLogMessages :: "env \<Rightarrow> syncLog list \<Rightarrow> world \<Rightarrow> error option \<times> world" where
  "sendBatchLogMessages e batch w =
     (case sendBatchLogMessages_err e batch of
        Some err \<Rightarrow> (Some err, called (Call_sendBatchLogMessages batch) w)
      | None \<Rightarrow> (None, (called (Call_sendBatchLogMessages batch) w)\<lparr>sync_logs := sync_logs w @ batch\<rparr>))"

text \<open>
  \<^verbatim>\<open>w.mergestat.SelectContext(ctx, &refs, selectRefs, tmpPath)\<close>: the query over the rows
  of \<^verbatim>\<open>refs(tmpPath)\<close>, each scanned into a \<^verbatim>\<open>ref\<close>.
\<close>

definition SelectContext :: "env \<Rightarrow> string \<Rightarrow> world \<Rightarrow> (error + ref list) \<times> world" where
  "SelectContext e tmpPath w =
     (case refs_table e tmpPath of
        Inl err \<Rightarrow> (Inl err, called (Call_SelectContext tmpPath) w)
      | Inr rows \<Rightarrow> (Inr (map (selectRefs (COMMIT_FROM_TAG e)) rows), called (Call_SelectContext tmpPath) w))"

text \<open>\<^verbatim>\<open>w.pool.BeginTx\<close>: the new transaction starts from the committed state.\<close>

definition BeginTx :: "env \<Rightarrow> world \<Rightarrow> error option \<times> world" where
  "BeginTx e w =
     (case BeginTx_err e of
        Some err \<Rightarrow> (Some err, called Call_BeginTx w)
      | None \<Rightarrow> (None, (called Call_BeginTx w)\<lparr>tx := Some (committed w)\<rparr>))"

text \<open>
  \<^verbatim>\<open>WHERE repo_id = $1\<close> with the text of a UUID as \<^verbatim>\<open>$1\<close>: true for a row whose
  \<^verbatim>\<open>repo_id\<close> is the UUID of that text, not true for a NULL.
\<close>

definition repo_id_is :: "string \<Rightarrow> cell list \<Rightarrow> bool" where
  "repo_id_is s row = (case row of CUuid u # _ \<Rightarrow> UUID_String u = s | _ \<Rightarrow> False)"

text \<open>
  \<^verbatim>\<open>tx.Exec(ctx, "DELETE FROM git_refs WHERE repo_id = $1;", ...)\<close>. A statement on a
  closed transaction is \<^verbatim>\<open>ErrTxClosed\<close>; a failed statement changes nothing.
\<close>

definition Exec_delete :: "env \<Rightarrow> string \<Rightarrow> world \<Rightarrow> error option \<times> world" where
  "Exec_delete e s w =
     (case tx w of
        None \<Rightarrow> (Some ErrTxClosed, called (Call_Exec_delete s) w)
      | Some d \<Rightarrow>
          (case Exec_err e of
             Some err \<Rightarrow> (Some err, called (Call_Exec_delete s) w)
           | None \<Rightarrow> (None, (called (Call_Exec_delete s) w)
                        \<lparr>tx := Some (d\<lparr>git_refs := filter (\<lambda>row. \<not> repo_id_is s row) (git_refs d)\<rparr>)\<rparr>)))"

text \<open>\<^verbatim>\<open>tx.CopyFrom\<close> into \<^verbatim>\<open>git_refs\<close>: the rows are added inside the transaction.\<close>

definition CopyFrom :: "env \<Rightarrow> cell list list \<Rightarrow> world \<Rightarrow> error option \<times> world" where
  "CopyFrom e rows w =
     (case tx w of
        None \<Rightarrow> (Some ErrTxClosed, called (Call_CopyFrom rows) w)
      | Some d \<Rightarrow>
          (case CopyFrom_err e rows of
             Some err \<Rightarrow> (Some err, called (Call_CopyFrom rows) w)
           | None \<Rightarrow> (None, (called (Call_CopyFrom rows) w)
                        \<lparr>tx := Some (d\<lparr>git_refs := git_refs d @ rows\<rparr>)\<rparr>)))"

text \<open>
  Modelled from the spec: \<^verbatim>\<open>SetSyncJobStatus\<close> (package \<^verbatim>\<open>db\<close>) is not in the source
  file; it is the "single-row job status update keyed by job ID, field status", run
  on the transaction that \<^verbatim>\<open>WithTx(tx)\<close> binds it to.
\<close>

definition SetSyncJobStatus :: "env \<Rightarrow> string \<Rightarrow> int \<Rightarrow> world \<Rightarrow> error option \<times> world" where
  "SetSyncJobStatus e status jid w =
     (case tx w of
        None \<Rightarrow> (Some ErrTxClosed, called (Call_SetSyncJobStatus status jid) w)
      | Some d \<Rightarrow>
          (case SetSyncJobStatus_err e of
             Some err \<Rightarrow> (Some err, called (Call_SetSyncJobStatus status jid) w)
           | None \<Rightarrow> (None, (called (Call_SetSyncJobStatus status jid) w)
                        \<lparr>tx := Some (d\<lparr>sync_status := (sync_status d)(jid := status)\<rparr>)\<rparr>)))"

text \<open>
  \<^verbatim>\<open>tx.Commit\<close>: the working state becomes the committed state; a failed commit
  commits nothing. Either way the transaction is closed afterwards.
\<close>

definition Commit :: "env \<Rightarrow> world \<Rightarrow> error option \<times> world" where
  "Commit e w =
     (case tx w of
        None \<Rightarrow> (Some ErrTxClosed, called Call_Commit w)
      | Some d \<Rightarrow>
          (case Commit_err e of
             Some err \<Rightarrow> (Some err, (called Call_Commit w)\<lparr>tx := None\<rparr>)
           | None \<Rightarrow> (None, (called Call_Commit w)\<lparr>committed := d, tx := None\<rparr>)))"

text \<open>
  \<^verbatim>\<open>tx.Rollback\<close>: \<^verbatim>\<open>ErrTxClosed\<close> on a closed transaction; otherwise the working
  state is dropped, also when the call reports an error (the connection is then closed
  and the server aborts the transaction).
\<close>

definition Rollback :: "env \<Rightarrow> world \<Rightarrow> error option \<times> world" where
  "Rollback e w =
     (case tx w of
        None \<Rightarrow> (Some ErrTxClosed, called Call_Rollback w)
      | Some d \<Rightarrow> (Rollback_err e, (called Call_Rollback w)\<lparr>tx := None\<rparr>))"

subsection \<open>\<^verbatim>\<open>sendBatchGitRefs\<close> (lines 17-64)\<close>

definition sendBatchGitRefs ::
  "env \<Rightarrow> DequeueSyncJobRow \<Rightarrow> ref list \<Rightarrow> world \<Rightarrow> error option \<times> world" where
  "sendBatchGitRefs e j batch w =
     (case inputs (uuid_FromString e) j batch [] of
        Inl err \<Rightarrow> (Some err, w)
      | Inr rows \<Rightarrow>
          (case CopyFrom e rows w of
             (Some err, w') \<Rightarrow> (Some err, w')
           | (None, w') \<Rightarrow> (None, w')))"

subsection \<open>\<^verbatim>\<open>handleGitRefs\<close> (lines 78-159)\<close>

text \<open>The two log batches (lines 104-110 and 148-154).\<close>

definition starting :: "DequeueSyncJobRow \<Rightarrow> syncLog list" where
  "starting j =
     [\<lparr>LogType = SyncLogTypeInfo, RepoSyncQueueID = ID j,
       Message = ''starting '' @ SyncType j @ '' sync for '' @ Repo j\<rparr>]"

definition finished :: "DequeueSyncJobRow \<Rightarrow> syncLog list" where
  "finished j =
     [\<lparr>LogType = SyncLogTypeInfo, RepoSyncQueueID = ID j,
       Message = ''finished '' @ SyncType j @ '' sync for '' @ Repo j\<rparr>]"

text \<open>
  The three deferred calls run when the function returns, last deferred first, and none
  of them touches the error that is returned.
\<close>

definition defer_Rollback :: "env \<Rightarrow> world \<Rightarrow> world" where
  "defer_Rollback e w =
     (case Rollback e w of
        (Some err, w') \<Rightarrow> (if \<not> errors_Is err ErrTxClosed then logged (Err_could_not_rollback err) w' else w')
      | (None, w') \<Rightarrow> w')"

definition defer_RemoveAll :: "env \<Rightarrow> string \<Rightarrow> world \<Rightarrow> world" where
  "defer_RemoveAll e tmpPath w =
     (case RemoveAll e tmpPath w of
        (Some err, w') \<Rightarrow> logged (Err_cleaning_up_repo tmpPath err) w'
      | (None, w') \<Rightarrow> w')"

text \<open>Lines 133-158: what runs after the rollback is deferred.\<close>

definition handleGitRefs_tx ::
  "env \<Rightarrow> DequeueSyncJobRow \<Rightarrow> ref list \<Rightarrow> world \<Rightarrow> error option \<times> world" where
  "handleGitRefs_tx e j refs w =
     (case Exec_delete e (UUID_String (RepoID j)) w of
        (Some err, w1) \<Rightarrow> (Some err, w1)
      | (None, w1) \<Rightarrow>
     (case sendBatchGitRefs e j refs w1 of
        (Some err, w2) \<Rightarrow> (Some err, w2)
      | (None, w2) \<Rightarrow>
     (case SetSyncJobStatus e ''DONE'' (ID j) (logged (Info_sent_batch (length refs)) w2) of
        (Some err, w3) \<Rightarrow> (Some err, w3)
      | (None, w3) \<Rightarrow>
     (case sendBatchLogMessages e (finished j) w3 of
        (Some err, w4) \<Rightarrow> (Some (Errorf ''log messages: '' err), w4)
      | (None, w4) \<Rightarrow> Commit e w4))))"

text \<open>Lines 103-131: what runs after \<^verbatim>\<open>repo.Free\<close> is deferred.\<close>

definition handleGitRefs_repo ::
  "env \<Rightarrow> DequeueSyncJobRow \<Rightarrow> string \<Rightarrow> world \<Rightarrow> error option \<times> world" where
  "handleGitRefs_repo e j tmpPath w =
     (case sendBatchLogMessages e (starting j) w of
        (Some err, w1) \<Rightarrow> (Some (Errorf ''log messages: '' err), w1)
      | (None, w1) \<Rightarrow>
     (case SelectContext e tmpPath w1 of
        (Inl err, w2) \<Rightarrow> (Some err, w2)
      | (Inr refs, w2) \<Rightarrow>
     (case BeginTx e (logged (Info_retrieved_refs (length refs)) w2) of
        (Some err, w3) \<Rightarrow> (Some err, w3)
      | (None, w3) \<Rightarrow>
          (case handleGitRefs_tx e j refs w3 of
             (r, w4) \<Rightarrow> (r, defer_Rollback e w4)))))"

text \<open>Lines 92-101: what runs after the removal of the directory is deferred.\<close>

definition handleGitRefs_tmp ::
  "env \<Rightarrow> DequeueSyncJobRow \<Rightarrow> string \<Rightarrow> world \<Rightarrow> error option \<times> world" where
  "handleGitRefs_tmp e j tmpPath w =
     (case fetchGitHubTokenFromDB e w of
        (Inl err, w1) \<Rightarrow> (Some err, w1)
      | (Inr ghToken, w1) \<Rightarrow>
     (case cloneRepo e ghToken (Repo j) tmpPath True w1 of
        (Inl err, w2) \<Rightarrow> (Some (Errorf ''git clone: '' err), w2)
      | (Inr repo, w2) \<Rightarrow>
          (case handleGitRefs_repo e j tmpPath w2 of
             (r, w3) \<Rightarrow> (r, Free repo w3))))"

definition handleGitRefs :: "env \<Rightarrow> DequeueSyncJobRow \<Rightarrow> world \<Rightarrow> error option \<times> world" where
  "handleGitRefs e j w =
     (case MkdirTemp e w of
        (Inl err, w1) \<Rightarrow> (Some err, w1)
      | (Inr tmpPath, w1) \<Rightarrow>
          (case handleGitRefs_tmp e j tmpPath w1 of
             (r, w2) \<Rightarrow> (r, defer_RemoveAll e tmpPath w2)))"

subsection \<open>A concrete run\<close>

text \<open>
  One job, one repository with a branch, an annotated tag, a lightweight tag and a
  symbolic ref, a database that already holds a row of this repository and a row of
  another one, and collaborators that all succeed. The theorems below are evaluated on
  this run and on variants of it in which one collaborator fails.
\<close>

definition repo0 :: uuid where
  "repo0 = ''6f1c2a9e-0d3b-4c5e-8a7f-1b2c3d4e5f60''"

definition job0 :: DequeueSyncJobRow where
  "job0 = \<lparr>ID = 42, RepoID = repo0, Repo = ''https://github.com/mergestat/mergestat'',
           SyncType = ''GIT_REFS''\<rparr>"

definition tmp0 :: string where
  "tmp0 = ''/tmp/mergestat-repo-1''"

definition row_main :: refs_row where
  "row_main = \<lparr>full_name = Some ''refs/heads/main'', hash = Some ''a1a1'', name = Some ''main'',
               remote = None, target = None, type = Some ''branch'', tag = None\<rparr>"

definition row_annotated :: refs_row where
  "row_annotated = \<lparr>full_name = Some ''refs/tags/v1.0'', hash = Some ''7a97'', name = Some ''v1.0'',
               remote = None, target = None, type = Some ''tag'', tag = Some (TagObject 1)\<rparr>"

definition row_lightweight :: refs_row where
  "row_lightweight = \<lparr>full_name = Some ''refs/tags/v0.9'', hash = Some ''d0d0'', name = Some ''v0.9'',
               remote = None, target = None, type = Some ''tag'', tag = None\<rparr>"

definition row_head :: refs_row where
  "row_head = \<lparr>full_name = Some ''HEAD'', hash = None, name = Some ''HEAD'',
               remote = None, target = Some ''refs/heads/main'', type = None, tag = None\<rparr>"

definition rows0 :: "refs_row list" where
  "rows0 = [row_main, row_annotated, row_lightweight, row_head]"

definition commit_from_tag0 :: "tag_object option \<Rightarrow> string option" where
  "commit_from_tag0 t = (case t of Some (TagObject n) \<Rightarrow> (if n = 1 then Some ''c0c0'' else None)
                                 | None \<Rightarrow> None)"

definition env0 :: env where
  "env0 = \<lparr>MkdirTemp_result = Inr tmp0,
           RemoveAll_err = None,
           fetchGitHubTokenFromDB_result = Inr ''token'',
           cloneRepo_result = (\<lambda>ghToken url tmpPath bare. Inr (Repository tmpPath)),
           sendBatchLogMessages_err = (\<lambda>batch. None),
           refs_table = (\<lambda>tmpPath. Inr rows0),
           COMMIT_FROM_TAG = commit_from_tag0,
           BeginTx_err = None,
           Exec_err = None,
           uuid_FromString = (\<lambda>s. Inr s),
           CopyFrom_err = (\<lambda>rows. None),
           SetSyncJobStatus_err = None,
           Commit_err = None,
           Rollback_err = None\<rparr>"

definition stored_stale :: "cell list" where
  "stored_stale = [CUuid repo0, CStr ''refs/heads/stale'', CStr ''stale'', CStr ''0000'',
                   CNil, CNil, CStr ''branch'', CNil]"

definition stored_other :: "cell list" where
  "stored_other = [CUuid ''00000000-0000-4000-8000-000000000001'', CStr ''refs/heads/main'',
                   CStr ''main'', CStr ''1111'', CNil, CNil, CStr ''branch'', CNil]"

definition world0 :: world where
  "world0 = \<lparr>committed =
               \<lparr>git_refs = stored_stale # stored_other # [],
                sync_status = (\<lambda>jid. ''RUNNING'')\<rparr>,
             tx = None, dirs = {}, sync_logs = [], oplog = [], calls = []\<rparr>"

section \<open>Properties\<close>

subsection \<open>Auxiliary facts\<close>

lemmas prim_defs = MkdirTemp_def RemoveAll_def fetchGitHubTokenFromDB_def cloneRepo_def Free_def
  sendBatchLogMessages_def SelectContext_def BeginTx_def Exec_delete_def CopyFrom_def
  SetSyncJobStatus_def Commit_def Rollback_def called_def logged_def

lemmas tx_defs = handleGitRefs_tx_def sendBatchGitRefs_def Exec_delete_def CopyFrom_def
  SetSyncJobStatus_def sendBatchLogMessages_def Commit_def called_def logged_def

text \<open>The loop of \<^verbatim>\<open>sendBatchGitRefs\<close> in closed form.\<close>

lemma inputs_eq:
  "inputs fs j batch acc =
     (if batch = [] then Inr acc
      else (case fs (UUID_String (RepoID j)) of
              Inl err \<Rightarrow> Inl err
            | Inr u \<Rightarrow> Inr (acc @ map (input u) batch)))"
  by (induction batch arbitrary: acc) (auto split: sum.splits)

lemma inputs_same_repo:
  assumes "inputs fs j batch [] = Inr rows" and "fs (UUID_String (RepoID j)) = Inr u"
  shows "rows = map (input u) batch"
  using assms by (simp add: inputs_eq split: if_splits)

lemma filter_repo_input:
  "filter (repo_id_is (UUID_String u)) (map (input u) batch) = map (input u) batch"
  by (induction batch) (simp_all add: repo_id_is_def input_def)

lemma filter_other_input:
  "filter (\<lambda>row. \<not> repo_id_is (UUID_String u) row) (map (input u) batch) = []"
  by (induction batch) (simp_all add: repo_id_is_def input_def)

lemma filter_repo_deleted:
  "filter (repo_id_is s) (filter (\<lambda>row. \<not> repo_id_is s row) xs) = []"
  by (induction xs) simp_all

lemma starting_neq_finished: "starting j \<noteq> finished j"
  by (simp add: starting_def finished_def)

text \<open>What the deferred calls leave untouched.\<close>

lemma defer_Rollback_proj:
  "committed (defer_Rollback e w) = committed w"
  "tx (defer_Rollback e w) = None"
  "dirs (defer_Rollback e w) = dirs w"
  "calls (defer_Rollback e w) = calls w @ [Call_Rollback]"
  by (auto simp: defer_Rollback_def prim_defs split: option.splits)

lemma Free_proj:
  "committed (Free repo w) = committed w"
  "tx (Free repo w) = tx w"
  "calls (Free repo w) = calls w @ [Call_Free repo]"
  by (simp_all add: Free_def called_def)

lemma defer_RemoveAll_proj:
  "committed (defer_RemoveAll e p w) = committed w"
  "tx (defer_RemoveAll e p w) = tx w"
  "sync_logs (defer_RemoveAll e p w) = sync_logs w"
  "calls (defer_RemoveAll e p w) = calls w @ [Call_RemoveAll p]"
  "dirs (defer_RemoveAll e p w) = (if RemoveAll_err e = None then dirs w - {p} else dirs w)"
  "oplog (defer_RemoveAll e p w) =
     (case RemoveAll_err e of None \<Rightarrow> oplog w | Some err \<Rightarrow> oplog w @ [Err_cleaning_up_repo p err])"
  by (auto simp: defer_RemoveAll_def prim_defs split: option.splits)

lemma defer_RemoveAll_upd:
  "committed (defer_RemoveAll (e\<lparr>RemoveAll_err := x\<rparr>) p w) = committed w"
  "sync_logs (defer_RemoveAll (e\<lparr>RemoveAll_err := x\<rparr>) p w) = sync_logs w"
  by (auto simp: defer_RemoveAll_def prim_defs split: option.splits)

lemmas after_tx = defer_RemoveAll_proj Free_proj defer_Rollback_proj

text \<open>The part of the handler inside the transaction (lines 133-158).\<close>

lemma tx_committed:
  assumes "handleGitRefs_tx e j refs w = (r, w')" and "tx w = Some d"
  shows "(r \<noteq> None \<and> committed w' = committed w) \<or>
         (r = None \<and> tx w' = None \<and>
          (\<exists>rows. inputs (uuid_FromString e) j refs [] = Inr rows \<and>
             committed w' = d\<lparr>git_refs := filter (\<lambda>row. \<not> repo_id_is (UUID_String (RepoID j)) row) (git_refs d) @ rows,
                              sync_status := (sync_status d)(ID j := ''DONE'')\<rparr>))"
  using assms
  by (auto simp: handleGitRefs_tx_def sendBatchGitRefs_def prim_defs
      split: option.splits sum.splits prod.splits)

lemma tx_calls:
  assumes "handleGitRefs_tx e j refs w = (r, w')"
  shows "\<exists>t. calls w' = calls w @ t \<and> distinct t \<and>
           set t \<subseteq> {Call_Exec_delete (UUID_String (RepoID j)), Call_SetSyncJobStatus ''DONE'' (ID j),
                    Call_sendBatchLogMessages (finished j), Call_Commit} \<union> range Call_CopyFrom"
  using assms
  by (auto simp: handleGitRefs_tx_def sendBatchGitRefs_def prim_defs
      split: option.splits sum.splits prod.splits)

text \<open>The part after the clone (lines 103-131).\<close>

lemma repo_committed:
  assumes "handleGitRefs_repo e j tmpPath w = (r, w')"
  shows "(r \<noteq> None \<and> committed w' = committed w) \<or>
         (r = None \<and> tx w' = None \<and>
          (\<exists>rs rows. refs_table e tmpPath = Inr rs \<and>
             inputs (uuid_FromString e) j (map (selectRefs (COMMIT_FROM_TAG e)) rs) [] = Inr rows \<and>
             committed w' = (committed w)\<lparr>git_refs := filter (\<lambda>row. \<not> repo_id_is (UUID_String (RepoID j)) row) (git_refs (committed w)) @ rows,
                              sync_status := (sync_status (committed w))(ID j := ''DONE'')\<rparr>))"
  using assms
  by (auto simp: handleGitRefs_repo_def sendBatchLogMessages_def SelectContext_def BeginTx_def
       called_def logged_def defer_Rollback_proj
      split: option.splits sum.splits prod.splits dest!: tx_committed)

lemma repo_calls:
  assumes "handleGitRefs_repo e j tmpPath w = (r, w')"
  shows "\<exists>t. calls w' = calls w @ t \<and> distinct t \<and>
           set t \<subseteq> {Call_sendBatchLogMessages (starting j), Call_SelectContext tmpPath, Call_BeginTx,
                    Call_Rollback,
                    Call_Exec_delete (UUID_String (RepoID j)), Call_SetSyncJobStatus ''DONE'' (ID j),
                    Call_sendBatchLogMessages (finished j), Call_Commit} \<union> range Call_CopyFrom"
  using assms starting_neq_finished[of j]
  by (auto simp: handleGitRefs_repo_def sendBatchLogMessages_def SelectContext_def BeginTx_def
       called_def logged_def defer_Rollback_proj
      split: option.splits sum.splits prod.splits dest!: tx_calls)

text \<open>The part after the directory is created (lines 92-101).\<close>

lemma tmp_committed:
  assumes "handleGitRefs_tmp e j tmpPath w = (r, w')"
  shows "(r \<noteq> None \<and> committed w' = committed w) \<or>
         (r = None \<and> tx w' = None \<and>
          (\<exists>rs rows. refs_table e tmpPath = Inr rs \<and>
             inputs (uuid_FromString e) j (map (selectRefs (COMMIT_FROM_TAG e)) rs) [] = Inr rows \<and>
             committed w' = (committed w)\<lparr>git_refs := filter (\<lambda>row. \<not> repo_id_is (UUID_String (RepoID j)) row) (git_refs (committed w)) @ rows,
                              sync_status := (sync_status (committed w))(ID j := ''DONE'')\<rparr>))"
  using assms
  by (auto simp: handleGitRefs_tmp_def fetchGitHubTokenFromDB_def cloneRepo_def Free_def called_def
      split: option.splits sum.splits prod.splits dest!: repo_committed)

lemma tmp_calls:
  assumes "handleGitRefs_tmp e j tmpPath w = (r, w')"
  shows "\<exists>t. calls w' = calls w @ t \<and> distinct t \<and> Call_MkdirTemp \<notin> set t \<and>
             (\<forall>q. Call_RemoveAll q \<notin> set t)"
  using assms
  by (auto simp: handleGitRefs_tmp_def fetchGitHubTokenFromDB_def cloneRepo_def Free_def called_def
      split: option.splits sum.splits prod.splits dest!: repo_calls)

text \<open>No collaborator but \<^verbatim>\<open>os.RemoveAll\<close> reads the answer of \<^verbatim>\<open>os.RemoveAll\<close>.\<close>

lemma prim_RemoveAll_err:
  "MkdirTemp (e\<lparr>RemoveAll_err := x\<rparr>) = MkdirTemp e"
  "fetchGitHubTokenFromDB (e\<lparr>RemoveAll_err := x\<rparr>) = fetchGitHubTokenFromDB e"
  "cloneRepo (e\<lparr>RemoveAll_err := x\<rparr>) = cloneRepo e"
  "sendBatchLogMessages (e\<lparr>RemoveAll_err := x\<rparr>) = sendBatchLogMessages e"
  "SelectContext (e\<lparr>RemoveAll_err := x\<rparr>) = SelectContext e"
  "BeginTx (e\<lparr>RemoveAll_err := x\<rparr>) = BeginTx e"
  "Exec_delete (e\<lparr>RemoveAll_err := x\<rparr>) = Exec_delete e"
  "CopyFrom (e\<lparr>RemoveAll_err := x\<rparr>) = CopyFrom e"
  "SetSyncJobStatus (e\<lparr>RemoveAll_err := x\<rparr>) = SetSyncJobStatus e"
  "Commit (e\<lparr>RemoveAll_err := x\<rparr>) = Commit e"
  "Rollback (e\<lparr>RemoveAll_err := x\<rparr>) = Rollback e"
  by (simp_all add: fun_eq_iff prim_defs cong: option.case_cong sum.case_cong)

lemma tx_RemoveAll_err: "handleGitRefs_tx (e\<lparr>RemoveAll_err := x\<rparr>) = handleGitRefs_tx e"
  by (simp add: fun_eq_iff handleGitRefs_tx_def sendBatchGitRefs_def prim_RemoveAll_err
      cong: prod.case_cong option.case_cong sum.case_cong)

lemma repo_RemoveAll_err: "handleGitRefs_repo (e\<lparr>RemoveAll_err := x\<rparr>) = handleGitRefs_repo e"
  by (simp add: fun_eq_iff handleGitRefs_repo_def defer_Rollback_def prim_RemoveAll_err tx_RemoveAll_err
      cong: prod.case_cong option.case_cong sum.case_cong)

lemma tmp_RemoveAll_err: "handleGitRefs_tmp (e\<lparr>RemoveAll_err := x\<rparr>) = handleGitRefs_tmp e"
  by (simp add: fun_eq_iff handleGitRefs_tmp_def prim_RemoveAll_err repo_RemoveAll_err
      cong: prod.case_cong option.case_cong sum.case_cong)

text \<open>The whole handler.\<close>

lemma handle_committed:
  assumes "handleGitRefs e j w = (r, w')"
  shows "(r \<noteq> None \<and> committed w' = committed w) \<or>
         (r = None \<and> tx w' = None \<and>
          (\<exists>tmpPath rs rows. MkdirTemp_result e = Inr tmpPath \<and> refs_table e tmpPath = Inr rs \<and>
             inputs (uuid_FromString e) j (map (selectRefs (COMMIT_FROM_TAG e)) rs) [] = Inr rows \<and>
             committed w' = (committed w)\<lparr>git_refs := filter (\<lambda>row. \<not> repo_id_is (UUID_String (RepoID j)) row) (git_refs (committed w)) @ rows,
                              sync_status := (sync_status (committed w))(ID j := ''DONE'')\<rparr>))"
  using assms
  by (auto simp: handleGitRefs_def MkdirTemp_def called_def defer_RemoveAll_proj
      split: option.splits sum.splits prod.splits dest!: tmp_committed)

text \<open>The handler once the working copy is there, and once the transaction is open.\<close>

lemma handle_provisioned:
  assumes "MkdirTemp_result e = Inr tmpPath"
    and "fetchGitHubTokenFromDB_result e = Inr ghToken"
    and "cloneRepo_result e ghToken (Repo j) tmpPath True = Inr repo"
  shows "handleGitRefs e j w =
     (case handleGitRefs_repo e j tmpPath
             (w\<lparr>dirs := insert tmpPath (dirs w),
                calls := calls w @ [Call_MkdirTemp, Call_fetchGitHubTokenFromDB,
                     Call_cloneRepo ghToken (Repo j) tmpPath True]\<rparr>) of
        (r, w3) \<Rightarrow> (r, defer_RemoveAll e tmpPath (Free repo w3)))"
  using assms
  by (simp add: handleGitRefs_def handleGitRefs_tmp_def
      MkdirTemp_def fetchGitHubTokenFromDB_def cloneRepo_def called_def split: prod.splits)

lemma handle_reach_tx:
  assumes "MkdirTemp_result e = Inr tmpPath"
    and "fetchGitHubTokenFromDB_result e = Inr ghToken"
    and "cloneRepo_result e ghToken (Repo j) tmpPath True = Inr repo"
    and "sendBatchLogMessages_err e (starting j) = None"
    and "refs_table e tmpPath = Inr rs"
    and "BeginTx_err e = None"
  shows "handleGitRefs e j w =
     (case handleGitRefs_tx e j (map (selectRefs (COMMIT_FROM_TAG e)) rs)
             (w\<lparr>dirs := insert tmpPath (dirs w),
                sync_logs := sync_logs w @ starting j,
                oplog := oplog w @ [Info_retrieved_refs (length rs)],
                calls := calls w @ [Call_MkdirTemp, Call_fetchGitHubTokenFromDB,
                     Call_cloneRepo ghToken (Repo j) tmpPath True,
                     Call_sendBatchLogMessages (starting j), Call_SelectContext tmpPath, Call_BeginTx],
                tx := Some (committed w)\<rparr>) of
        (r, w4) \<Rightarrow> (r, defer_RemoveAll e tmpPath (Free repo (defer_Rollback e w4))))"
  using assms
  by (simp add: handleGitRefs_def handleGitRefs_tmp_def handleGitRefs_repo_def
      MkdirTemp_def fetchGitHubTokenFromDB_def cloneRepo_def sendBatchLogMessages_def
      SelectContext_def BeginTx_def called_def logged_def split: prod.splits)

text \<open>The concrete run reaches the transaction.\<close>

lemma run0:
  "fetchGitHubTokenFromDB_result env0 = Inr ''token''"
  "cloneRepo_result env0 ''token'' (Repo job0) tmp0 True = Inr (Repository tmp0)"
  "MkdirTemp_result env0 = Inr tmp0"
  "refs_table env0 tmp0 = Inr rows0"
  "BeginTx_err env0 = None"
  "Exec_err env0 = None"
  "SetSyncJobStatus_err env0 = None"
  "Commit_err env0 = None"
  "RemoveAll_err env0 = None"
  "sendBatchLogMessages_err env0 b = None"
  "CopyFrom_err env0 rows = None"
  "uuid_FromString env0 s = Inr s"
  "COMMIT_FROM_TAG env0 = commit_from_tag0"
  by (simp_all add: env0_def)

lemma inputs0:
  "inputs (uuid_FromString env0) job0 (map (selectRefs commit_from_tag0) rows0) [] =
     Inr (map (input repo0) (map (selectRefs commit_from_tag0) rows0))"
  by (simp add: inputs_eq job0_def UUID_String_def rows0_def env0_def)

subsection \<open>The extraction query\<close>

text \<open>
  C10. Every extracted reference whose type is not \<^verbatim>\<open>'tag'\<close>, the references with no
  type among them, has no \<^verbatim>\<open>tag_commit_hash\<close>: the CASE expression of the query has no
  ELSE branch. The bulk insert then writes NULL for it.
\<close>

theorem tag_commit_hash_absent_unless_tag:
  assumes "fst (SelectContext e tmpPath w) = Inr refs" and "r \<in> set refs"
    and "\<not> (Valid (Type r) \<and> String (Type r) = ''tag'')"
  shows "TagCommitHash r = \<lparr>String = [], Valid = False\<rparr> \<and> nullable (TagCommitHash r) = CNil"
  using assms
  by (auto simp: SelectContext_def selectRefs_def Scan_def tag_commit_hash_def CASE_WHEN_def
      sql_eq_def nullable_def split: sum.splits option.splits)

text \<open>On the concrete run: the branch and the symbolic ref, which has no type.\<close>

theorem tag_commit_hash_absent_unless_tag_witness:
  "TagCommitHash (selectRefs commit_from_tag0 row_main) = \<lparr>String = [], Valid = False\<rparr> \<and>
   nullable (TagCommitHash (selectRefs commit_from_tag0 row_main)) = CNil \<and>
   TagCommitHash (selectRefs commit_from_tag0 row_head) = \<lparr>String = [], Valid = False\<rparr> \<and>
   nullable (TagCommitHash (selectRefs commit_from_tag0 row_head)) = CNil"
proof -
  have sel: "fst (SelectContext env0 tmp0 world0) = Inr (map (selectRefs commit_from_tag0) rows0)"
    by (simp add: SelectContext_def run0)
  have m: "selectRefs commit_from_tag0 row_main \<in> set (map (selectRefs commit_from_tag0) rows0)"
    and h: "selectRefs commit_from_tag0 row_head \<in> set (map (selectRefs commit_from_tag0) rows0)"
    by (simp_all add: rows0_def)
  have tm: "\<not> (Valid (Type (selectRefs commit_from_tag0 row_main)) \<and>
               String (Type (selectRefs commit_from_tag0 row_main)) = ''tag'')"
    by (simp add: selectRefs_def Scan_def row_main_def)
  have th: "\<not> (Valid (Type (selectRefs commit_from_tag0 row_head)) \<and>
               String (Type (selectRefs commit_from_tag0 row_head)) = ''tag'')"
    by (simp add: selectRefs_def Scan_def row_head_def)
  show ?thesis
    using tag_commit_hash_absent_unless_tag[OF sel m tm]
      tag_commit_hash_absent_unless_tag[OF sel h th]
    by blast
qed

text \<open>
  C3. For every extracted reference of type \<^verbatim>\<open>'tag'\<close>, \<^verbatim>\<open>tag_commit_hash\<close> is the commit
  that \<^verbatim>\<open>COMMIT_FROM_TAG\<close> resolves the tag object to when it resolves it (annotated tag),
  and the reference's own \<^verbatim>\<open>hash\<close> when it does not (lightweight tag).
\<close>

theorem tag_commit_hash_of_tag:
  assumes "refs_table e tmpPath = Inr rows" and "i < length rows"
    and "type (rows ! i) = Some ''tag''"
  shows "\<exists>refs. fst (SelectContext e tmpPath w) = Inr refs \<and> length refs = length rows \<and>
           Type (refs ! i) = \<lparr>String = ''tag'', Valid = True\<rparr> \<and>
           (\<forall>c. COMMIT_FROM_TAG e (tag (rows ! i)) = Some c \<longrightarrow>
                TagCommitHash (refs ! i) = \<lparr>String = c, Valid = True\<rparr>) \<and>
           (COMMIT_FROM_TAG e (tag (rows ! i)) = None \<longrightarrow>
                TagCommitHash (refs ! i) = Hash (refs ! i) \<and> Hash (refs ! i) = Scan (hash (rows ! i)))"
  using assms
  by (auto simp: SelectContext_def selectRefs_def Scan_def tag_commit_hash_def CASE_WHEN_def
      sql_eq_def COALESCE_def split: sum.splits option.splits)

text \<open>
  On the concrete run: the annotated tag gets the commit \<open>c0c0\<close> of its tag object, the
  lightweight tag its own hash \<open>d0d0\<close>.
\<close>

theorem tag_commit_hash_of_tag_witness:
  "\<exists>refs. fst (SelectContext env0 tmp0 world0) = Inr refs \<and>
     TagCommitHash (refs ! 1) = \<lparr>String = ''c0c0'', Valid = True\<rparr> \<and>
     TagCommitHash (refs ! 2) = \<lparr>String = ''d0d0'', Valid = True\<rparr>"
proof -
  have rt: "refs_table env0 tmp0 = Inr rows0" by (simp add: run0)
  have l1: "1 < length rows0" and l2: "2 < length rows0" by (simp_all add: rows0_def)
  have t1: "type (rows0 ! 1) = Some ''tag''" by (simp add: rows0_def row_annotated_def)
  have t2: "type (rows0 ! 2) = Some ''tag''" by (simp add: rows0_def row_lightweight_def)
  have c1: "COMMIT_FROM_TAG env0 (tag (rows0 ! 1)) = Some ''c0c0''"
    by (simp add: run0 rows0_def row_annotated_def commit_from_tag0_def)
  have c2: "COMMIT_FROM_TAG env0 (tag (rows0 ! 2)) = None"
    by (simp add: run0 rows0_def row_lightweight_def commit_from_tag0_def)
  have h2: "Scan (hash (rows0 ! 2)) = \<lparr>String = ''d0d0'', Valid = True\<rparr>"
    by (simp add: rows0_def row_lightweight_def Scan_def)
  from tag_commit_hash_of_tag[OF rt l1 t1, of world0] tag_commit_hash_of_tag[OF rt l2 t2, of world0]
  show ?thesis using c1 c2 h2 by auto
qed

subsection \<open>The bulk insert\<close>

text \<open>
  C4. For every ref of the inserted batch, each optional field (\<^verbatim>\<open>hash\<close>, \<^verbatim>\<open>remote\<close>,
  \<^verbatim>\<open>target\<close>, \<^verbatim>\<open>type\<close>, \<^verbatim>\<open>tag_commit_hash\<close>) is written to the transaction as its
  string when it is present and as NULL when it is absent, never as an empty string.
\<close>

theorem absent_fields_stored_as_NULL:
  assumes "sendBatchGitRefs e j batch w = (None, w')" and "tx w = Some d" and "i < length batch"
  shows "\<exists>rows. tx w' = Some (d\<lparr>git_refs := git_refs d @ rows\<rparr>) \<and> length rows = length batch \<and>
           length (rows ! i) = 8 \<and>
           rows ! i ! 3 = (if Valid (Hash (batch ! i)) then CStr (String (Hash (batch ! i))) else CNil) \<and>
           rows ! i ! 4 = (if Valid (Remote (batch ! i)) then CStr (String (Remote (batch ! i))) else CNil) \<and>
           rows ! i ! 5 = (if Valid (Target (batch ! i)) then CStr (String (Target (batch ! i))) else CNil) \<and>
           rows ! i ! 6 = (if Valid (Type (batch ! i)) then CStr (String (Type (batch ! i))) else CNil) \<and>
           rows ! i ! 7 = (if Valid (TagCommitHash (batch ! i))
                           then CStr (String (TagCommitHash (batch ! i))) else CNil) \<and>
           (\<not> Valid (Hash (batch ! i)) \<longrightarrow> rows ! i ! 3 \<noteq> CStr []) \<and>
           (\<not> Valid (Remote (batch ! i)) \<longrightarrow> rows ! i ! 4 \<noteq> CStr []) \<and>
           (\<not> Valid (Target (batch ! i)) \<longrightarrow> rows ! i ! 5 \<noteq> CStr []) \<and>
           (\<not> Valid (Type (batch ! i)) \<longrightarrow> rows ! i ! 6 \<noteq> CStr []) \<and>
           (\<not> Valid (TagCommitHash (batch ! i)) \<longrightarrow> rows ! i ! 7 \<noteq> CStr [])"
proof -
  from assms(3) have ne: "batch \<noteq> []" by auto
  from assms(1) obtain u where u: "uuid_FromString e (UUID_String (RepoID j)) = Inr u"
    and w': "CopyFrom e (map (input u) batch) w = (None, w')"
    using ne by (auto simp: sendBatchGitRefs_def inputs_eq split: sum.splits option.splits prod.splits)
  from w' assms(2) have "tx w' = Some (d\<lparr>git_refs := git_refs d @ map (input u) batch\<rparr>)"
    by (auto simp: CopyFrom_def called_def split: option.splits)
  moreover have "length (map (input u) batch) = length batch" by simp
  moreover have "map (input u) batch ! i = input u (batch ! i)" using assms(3) by simp
  ultimately show ?thesis
    by (intro exI[of _ "map (input u) batch"]) (simp add: input_def nullable_def)
qed

text \<open>On the concrete run: the branch \<open>main\<close> has no remote and no target.\<close>

theorem absent_fields_stored_as_NULL_witness:
  "\<exists>rows. tx (snd (sendBatchGitRefs env0 job0 (map (selectRefs commit_from_tag0) rows0)
                      (world0\<lparr>tx := Some (committed world0)\<rparr>))) =
             Some ((committed world0)\<lparr>git_refs := git_refs (committed world0) @ rows\<rparr>) \<and>
          rows ! 0 ! 4 = CNil \<and> rows ! 0 ! 5 = CNil \<and>
          rows ! 0 ! 4 \<noteq> CStr [] \<and> rows ! 0 ! 5 \<noteq> CStr []"
proof -
  let ?batch = "map (selectRefs commit_from_tag0) rows0"
  let ?w = "world0\<lparr>tx := Some (committed world0)\<rparr>"
  have "fst (sendBatchGitRefs env0 job0 ?batch ?w) = None"
    by (simp add: sendBatchGitRefs_def inputs0 CopyFrom_def run0 del: map_map)
  then have s: "sendBatchGitRefs env0 job0 ?batch ?w = (None, snd (sendBatchGitRefs env0 job0 ?batch ?w))"
    by (metis prod.collapse)
  have t: "tx ?w = Some (committed world0)" by simp
  have i: "0 < length ?batch" by (simp add: rows0_def)
  have v: "\<not> Valid (Remote (?batch ! 0))" "\<not> Valid (Target (?batch ! 0))"
    by (simp_all add: rows0_def selectRefs_def Scan_def row_main_def)
  from absent_fields_stored_as_NULL[OF s t i] obtain rows where
    "tx (snd (sendBatchGitRefs env0 job0 ?batch ?w)) =
       Some ((committed world0)\<lparr>git_refs := git_refs (committed world0) @ rows\<rparr>)"
    "rows ! 0 ! 4 = (if Valid (Remote (?batch ! 0)) then CStr (String (Remote (?batch ! 0))) else CNil)"
    "rows ! 0 ! 5 = (if Valid (Target (?batch ! 0)) then CStr (String (Target (?batch ! 0))) else CNil)"
    by blast
  with v show ?thesis by (intro exI[of _ rows]) simp
qed

subsection \<open>The reconciliation transaction\<close>

text \<open>
  C1. When the handler has opened its transaction and the delete, the bulk insert (the
  parse of the repository id or the copy) or the job-status update fails, the handler
  returns that very error, rolls the transaction back without committing, and the
  committed database, so the stored refs of the repository, is as it was before the job.
\<close>

theorem reconciliation_failure_rolls_back:
  assumes "MkdirTemp_result e = Inr tmpPath"
    and "fetchGitHubTokenFromDB_result e = Inr ghToken"
    and "cloneRepo_result e ghToken (Repo j) tmpPath True = Inr repo"
    and "sendBatchLogMessages_err e (starting j) = None"
    and "refs_table e tmpPath = Inr rs"
    and "BeginTx_err e = None"
    and "Exec_err e = Some err \<or>
         Exec_err e = None \<and>
           inputs (uuid_FromString e) j (map (selectRefs (COMMIT_FROM_TAG e)) rs) [] = Inl err \<or>
         Exec_err e = None \<and>
           inputs (uuid_FromString e) j (map (selectRefs (COMMIT_FROM_TAG e)) rs) [] = Inr rows \<and>
           CopyFrom_err e rows = Some err \<or>
         Exec_err e = None \<and>
           inputs (uuid_FromString e) j (map (selectRefs (COMMIT_FROM_TAG e)) rs) [] = Inr rows \<and>
           CopyFrom_err e rows = None \<and> SetSyncJobStatus_err e = Some err"
  shows "fst (handleGitRefs e j w) = Some err \<and>
         committed (snd (handleGitRefs e j w)) = committed w \<and>
         tx (snd (handleGitRefs e j w)) = None \<and>
         (\<exists>t. calls (snd (handleGitRefs e j w)) =
                 calls w @ t @ [Call_Rollback, Call_Free repo, Call_RemoveAll tmpPath] \<and>
              Call_Commit \<notin> set t)"
  using assms(7)
proof (elim disjE conjE)
  assume "Exec_err e = Some err"
  then show ?thesis
    by (simp add: handle_reach_tx[OF assms(1-6)] tx_defs after_tx)
next
  assume "Exec_err e = None"
    "inputs (uuid_FromString e) j (map (selectRefs (COMMIT_FROM_TAG e)) rs) [] = Inl err"
  then show ?thesis
    by (simp add: handle_reach_tx[OF assms(1-6)] tx_defs after_tx)
next
  assume "Exec_err e = None"
    "inputs (uuid_FromString e) j (map (selectRefs (COMMIT_FROM_TAG e)) rs) [] = Inr rows"
    "CopyFrom_err e rows = Some err"
  then show ?thesis
    by (simp add: handle_reach_tx[OF assms(1-6)] tx_defs after_tx)
next
  assume "Exec_err e = None"
    "inputs (uuid_FromString e) j (map (selectRefs (COMMIT_FROM_TAG e)) rs) [] = Inr rows"
    "CopyFrom_err e rows = None" "SetSyncJobStatus_err e = Some err"
  then show ?thesis
    by (simp add: handle_reach_tx[OF assms(1-6)] tx_defs after_tx)
qed

text \<open>On the concrete run with a status update that fails after the delete and the insert.\<close>

theorem reconciliation_failure_rolls_back_witness:
  "fst (handleGitRefs (env0\<lparr>SetSyncJobStatus_err := Some (Failure ''deadlock detected'')\<rparr>) job0 world0) =
     Some (Failure ''deadlock detected'') \<and>
   committed (snd (handleGitRefs (env0\<lparr>SetSyncJobStatus_err := Some (Failure ''deadlock detected'')\<rparr>)
                     job0 world0)) = committed world0 \<and>
   tx (snd (handleGitRefs (env0\<lparr>SetSyncJobStatus_err := Some (Failure ''deadlock detected'')\<rparr>)
              job0 world0)) = None"
proof -
  let ?e = "env0\<lparr>SetSyncJobStatus_err := Some (Failure ''deadlock detected'')\<rparr>"
  have 1: "MkdirTemp_result ?e = Inr tmp0"
    and 2: "fetchGitHubTokenFromDB_result ?e = Inr ''token''"
    and 3: "cloneRepo_result ?e ''token'' (Repo job0) tmp0 True = Inr (Repository tmp0)"
    and 4: "sendBatchLogMessages_err ?e (starting job0) = None"
    and 5: "refs_table ?e tmp0 = Inr rows0"
    and 6: "BeginTx_err ?e = None"
    by (simp_all add: run0)
  have 7: "Exec_err ?e = Some (Failure ''deadlock detected'') \<or>
         Exec_err ?e = None \<and>
           inputs (uuid_FromString ?e) job0 (map (selectRefs (COMMIT_FROM_TAG ?e)) rows0) [] =
             Inl (Failure ''deadlock detected'') \<or>
         Exec_err ?e = None \<and>
           inputs (uuid_FromString ?e) job0 (map (selectRefs (COMMIT_FROM_TAG ?e)) rows0) [] =
             Inr (map (input repo0) (map (selectRefs commit_from_tag0) rows0)) \<and>
           CopyFrom_err ?e (map (input repo0) (map (selectRefs commit_from_tag0) rows0)) =
             Some (Failure ''deadlock detected'') \<or>
         Exec_err ?e = None \<and>
           inputs (uuid_FromString ?e) job0 (map (selectRefs (COMMIT_FROM_TAG ?e)) rows0) [] =
             Inr (map (input repo0) (map (selectRefs commit_from_tag0) rows0)) \<and>
           CopyFrom_err ?e (map (input repo0) (map (selectRefs commit_from_tag0) rows0)) = None \<and>
           SetSyncJobStatus_err ?e = Some (Failure ''deadlock detected'')"
    by (simp add: run0 inputs0 del: map_map)
  from reconciliation_failure_rolls_back[OF 1 2 3 4 5 6 7, of world0]
  show ?thesis by blast
qed

text \<open>
  C2. The status update runs on the handler's transaction, so the committed database
  changes in one step or not at all: for a job that was not DONE when it was taken and a
  repository id that parses to itself, after the handler either it succeeded, the job
  is DONE and the stored rows of the repository are exactly the extracted refs, one row
  per ref in order, holding the repository id, the ref's \<^verbatim>\<open>full_name\<close> and \<^verbatim>\<open>name\<close>
  and its five optional fields (the rows of other repositories untouched), or it failed,
  the job is not DONE and the database is as before.
\<close>

theorem done_and_refs_atomic:
  assumes "handleGitRefs e j w = (r, w')"
    and "sync_status (committed w) (ID j) \<noteq> ''DONE''"
    and "uuid_FromString e (UUID_String (RepoID j)) = Inr (RepoID j)"
  shows "(r = None \<and> sync_status (committed w') (ID j) = ''DONE'' \<and>
          (\<exists>tmpPath rs refs. MkdirTemp_result e = Inr tmpPath \<and> refs_table e tmpPath = Inr rs \<and>
             fst (SelectContext e tmpPath w) = Inr refs \<and>
             refs = map (selectRefs (COMMIT_FROM_TAG e)) rs \<and>
             filter (repo_id_is (UUID_String (RepoID j))) (git_refs (committed w')) =
               map (\<lambda>x. [CUuid (RepoID j),
                          CStr (String (FullName x)),
                          CStr (String (Name x)),
                          if Valid (Hash x) then CStr (String (Hash x)) else CNil,
                          if Valid (Remote x) then CStr (String (Remote x)) else CNil,
                          if Valid (Target x) then CStr (String (Target x)) else CNil,
                          if Valid (Type x) then CStr (String (Type x)) else CNil,
                          if Valid (TagCommitHash x) then CStr (String (TagCommitHash x)) else CNil])
                   refs) \<and>
          filter (\<lambda>row. \<not> repo_id_is (UUID_String (RepoID j)) row) (git_refs (committed w')) =
            filter (\<lambda>row. \<not> repo_id_is (UUID_String (RepoID j)) row) (git_refs (committed w)))
       \<or> (r \<noteq> None \<and> sync_status (committed w') (ID j) \<noteq> ''DONE'' \<and> committed w' = committed w)"
  using handle_committed[OF assms(1)]
proof (elim disjE conjE exE)
  assume "r \<noteq> None" "committed w' = committed w"
  with assms(2) show ?thesis by simp
next
  fix tmpPath rs rows
  assume r: "r = None"
    and mk: "MkdirTemp_result e = Inr tmpPath" and rt: "refs_table e tmpPath = Inr rs"
    and ins: "inputs (uuid_FromString e) j (map (selectRefs (COMMIT_FROM_TAG e)) rs) [] = Inr rows"
    and c: "committed w' = (committed w)
              \<lparr>git_refs := filter (\<lambda>row. \<not> repo_id_is (UUID_String (RepoID j)) row)
                             (git_refs (committed w)) @ rows,
               sync_status := (sync_status (committed w))(ID j := ''DONE'')\<rparr>"
  let ?refs = "map (selectRefs (COMMIT_FROM_TAG e)) rs"
  have rows: "rows = map (input (RepoID j)) ?refs"
    by (rule inputs_same_repo[OF ins assms(3)])
  have sel: "fst (SelectContext e tmpPath w) = Inr ?refs"
    using rt by (simp add: SelectContext_def)
  have cols: "input (RepoID j) =
     (\<lambda>x. [CUuid (RepoID j),
            CStr (String (FullName x)),
            CStr (String (Name x)),
            if Valid (Hash x) then CStr (String (Hash x)) else CNil,
            if Valid (Remote x) then CStr (String (Remote x)) else CNil,
            if Valid (Target x) then CStr (String (Target x)) else CNil,
            if Valid (Type x) then CStr (String (Type x)) else CNil,
            if Valid (TagCommitHash x) then CStr (String (TagCommitHash x)) else CNil])"
    by (simp add: fun_eq_iff input_def nullable_def)
  have "filter (repo_id_is (UUID_String (RepoID j))) (git_refs (committed w')) =
          map (input (RepoID j)) ?refs"
    unfolding c rows by (simp add: filter_repo_deleted filter_repo_input del: map_map)
  then have stored: "filter (repo_id_is (UUID_String (RepoID j))) (git_refs (committed w')) =
          map (\<lambda>x. [CUuid (RepoID j),
            CStr (String (FullName x)),
            CStr (String (Name x)),
            if Valid (Hash x) then CStr (String (Hash x)) else CNil,
            if Valid (Remote x) then CStr (String (Remote x)) else CNil,
            if Valid (Target x) then CStr (String (Target x)) else CNil,
            if Valid (Type x) then CStr (String (Type x)) else CNil,
            if Valid (TagCommitHash x) then CStr (String (TagCommitHash x)) else CNil]) ?refs"
    by (simp only: cols)
  have other: "filter (\<lambda>row. \<not> repo_id_is (UUID_String (RepoID j)) row) (git_refs (committed w')) =
            filter (\<lambda>row. \<not> repo_id_is (UUID_String (RepoID j)) row) (git_refs (committed w))"
    unfolding c rows by (simp add: filter_other_input del: map_map)
  have st: "sync_status (committed w') (ID j) = ''DONE''"
    unfolding c by simp
  from mk rt sel stored
  have "\<exists>tmpPath rs refs. MkdirTemp_result e = Inr tmpPath \<and> refs_table e tmpPath = Inr rs \<and>
             fst (SelectContext e tmpPath w) = Inr refs \<and>
             refs = map (selectRefs (COMMIT_FROM_TAG e)) rs \<and>
             filter (repo_id_is (UUID_String (RepoID j))) (git_refs (committed w')) =
               map (\<lambda>x. [CUuid (RepoID j),
                          CStr (String (FullName x)),
                          CStr (String (Name x)),
                          if Valid (Hash x) then CStr (String (Hash x)) else CNil,
                          if Valid (Remote x) then CStr (String (Remote x)) else CNil,
                          if Valid (Target x) then CStr (String (Target x)) else CNil,
                          if Valid (Type x) then CStr (String (Type x)) else CNil,
                          if Valid (TagCommitHash x) then CStr (String (TagCommitHash x)) else CNil])
                   refs"
    by blast
  with r st other show ?thesis by blast
qed

text \<open>
  On the concrete run, which succeeds: the job is DONE and the repository holds the
  four rows written out below, the stale row gone and the other repository's row kept;
  on the run whose commit fails nothing has changed.
\<close>

theorem done_and_refs_atomic_witness:
  "sync_status (committed (snd (handleGitRefs env0 job0 world0))) (ID job0) = ''DONE'' \<and>
   filter (repo_id_is (UUID_String (RepoID job0)))
     (git_refs (committed (snd (handleGitRefs env0 job0 world0)))) =
     [CUuid repo0, CStr ''refs/heads/main'', CStr ''main'', CStr ''a1a1'',
        CNil, CNil, CStr ''branch'', CNil] #
     [CUuid repo0, CStr ''refs/tags/v1.0'', CStr ''v1.0'', CStr ''7a97'',
        CNil, CNil, CStr ''tag'', CStr ''c0c0''] #
     [CUuid repo0, CStr ''refs/tags/v0.9'', CStr ''v0.9'', CStr ''d0d0'',
        CNil, CNil, CStr ''tag'', CStr ''d0d0''] #
     [CUuid repo0, CStr ''HEAD'', CStr ''HEAD'', CNil,
        CNil, CStr ''refs/heads/main'', CNil, CNil] # [] \<and>
   filter (\<lambda>row. \<not> repo_id_is (UUID_String (RepoID job0)) row)
     (git_refs (committed (snd (handleGitRefs env0 job0 world0)))) = stored_other # [] \<and>
   committed (snd (handleGitRefs (env0\<lparr>Commit_err := Some (Failure ''connection reset'')\<rparr>) job0 world0)) =
     committed world0"
proof -
  let ?f = "env0\<lparr>Commit_err := Some (Failure ''connection reset'')\<rparr>"
  have h: "handleGitRefs env0 job0 world0 =
             (fst (handleGitRefs env0 job0 world0), snd (handleGitRefs env0 job0 world0))"
    and hf: "handleGitRefs ?f job0 world0 =
             (fst (handleGitRefs ?f job0 world0), snd (handleGitRefs ?f job0 world0))"
    by simp_all
  have s: "sync_status (committed world0) (ID job0) \<noteq> ''DONE''"
    by (simp add: world0_def)
  have u: "uuid_FromString env0 (UUID_String (RepoID job0)) = Inr (RepoID job0)"
    and uf: "uuid_FromString ?f (UUID_String (RepoID job0)) = Inr (RepoID job0)"
    by (simp_all add: run0 UUID_String_def)
  have ok: "fst (handleGitRefs env0 job0 world0) = None"
    by (simp add: handle_reach_tx[of env0 tmp0 "''token''" job0 "Repository tmp0" rows0] run0
        inputs0 tx_defs del: map_map)
  have ko: "fst (handleGitRefs ?f job0 world0) = Some (Failure ''connection reset'')"
    by (simp add: handle_reach_tx[of ?f tmp0 "''token''" job0 "Repository tmp0" rows0] run0
        inputs0 tx_defs del: map_map)
  have before: "filter (\<lambda>row. \<not> repo_id_is (UUID_String (RepoID job0)) row)
                  (git_refs (committed world0)) = stored_other # []"
    by (simp add: world0_def stored_stale_def stored_other_def repo_id_is_def UUID_String_def
        job0_def repo0_def)
  from done_and_refs_atomic[OF h s u] ok
  have "sync_status (committed (snd (handleGitRefs env0 job0 world0))) (ID job0) = ''DONE'' \<and>
        filter (repo_id_is (UUID_String (RepoID job0)))
          (git_refs (committed (snd (handleGitRefs env0 job0 world0)))) =
          map (\<lambda>x. [CUuid (RepoID job0),
                     CStr (String (FullName x)),
                     CStr (String (Name x)),
                     if Valid (Hash x) then CStr (String (Hash x)) else CNil,
                     if Valid (Remote x) then CStr (String (Remote x)) else CNil,
                     if Valid (Target x) then CStr (String (Target x)) else CNil,
                     if Valid (Type x) then CStr (String (Type x)) else CNil,
                     if Valid (TagCommitHash x) then CStr (String (TagCommitHash x)) else CNil])
            (map (selectRefs commit_from_tag0) rows0) \<and>
        filter (\<lambda>row. \<not> repo_id_is (UUID_String (RepoID job0)) row)
          (git_refs (committed (snd (handleGitRefs env0 job0 world0)))) =
        filter (\<lambda>row. \<not> repo_id_is (UUID_String (RepoID job0)) row) (git_refs (committed world0))"
    by (auto simp: run0)
  moreover have "map (\<lambda>x. [CUuid (RepoID job0),
                     CStr (String (FullName x)),
                     CStr (String (Name x)),
                     if Valid (Hash x) then CStr (String (Hash x)) else CNil,
                     if Valid (Remote x) then CStr (String (Remote x)) else CNil,
                     if Valid (Target x) then CStr (String (Target x)) else CNil,
                     if Valid (Type x) then CStr (String (Type x)) else CNil,
                     if Valid (TagCommitHash x) then CStr (String (TagCommitHash x)) else CNil])
            (map (selectRefs commit_from_tag0) rows0) =
        [CUuid repo0, CStr ''refs/heads/main'', CStr ''main'', CStr ''a1a1'',
           CNil, CNil, CStr ''branch'', CNil] #
        [CUuid repo0, CStr ''refs/tags/v1.0'', CStr ''v1.0'', CStr ''7a97'',
           CNil, CNil, CStr ''tag'', CStr ''c0c0''] #
        [CUuid repo0, CStr ''refs/tags/v0.9'', CStr ''v0.9'', CStr ''d0d0'',
           CNil, CNil, CStr ''tag'', CStr ''d0d0''] #
        [CUuid repo0, CStr ''HEAD'', CStr ''HEAD'', CNil,
           CNil, CStr ''refs/heads/main'', CNil, CNil] # []"
    by (simp add: rows0_def row_main_def row_annotated_def row_lightweight_def row_head_def
        selectRefs_def Scan_def tag_commit_hash_def CASE_WHEN_def sql_eq_def COALESCE_def
        commit_from_tag0_def job0_def)
  ultimately have "sync_status (committed (snd (handleGitRefs env0 job0 world0))) (ID job0) = ''DONE'' \<and>
        filter (repo_id_is (UUID_String (RepoID job0)))
          (git_refs (committed (snd (handleGitRefs env0 job0 world0)))) =
        [CUuid repo0, CStr ''refs/heads/main'', CStr ''main'', CStr ''a1a1'',
           CNil, CNil, CStr ''branch'', CNil] #
        [CUuid repo0, CStr ''refs/tags/v1.0'', CStr ''v1.0'', CStr ''7a97'',
           CNil, CNil, CStr ''tag'', CStr ''c0c0''] #
        [CUuid repo0, CStr ''refs/tags/v0.9'', CStr ''v0.9'', CStr ''d0d0'',
           CNil, CNil, CStr ''tag'', CStr ''d0d0''] #
        [CUuid repo0, CStr ''HEAD'', CStr ''HEAD'', CNil,
           CNil, CStr ''refs/heads/main'', CNil, CNil] # [] \<and>
        filter (\<lambda>row. \<not> repo_id_is (UUID_String (RepoID job0)) row)
          (git_refs (committed (snd (handleGitRefs env0 job0 world0)))) = stored_other # []"
    using before by simp
  moreover from done_and_refs_atomic[OF hf s uf] ko
  have "committed (snd (handleGitRefs ?f job0 world0)) = committed world0"
    by auto
  ultimately show ?thesis by blast
qed

text \<open>
  C9. When the delete, the insert and the status update have run and the completion log
  batch cannot be sent, the handler returns before \<^verbatim>\<open>tx.Commit\<close>: the trace ends with
  the rollback and the two other deferred calls, no commit is in it, and the committed
  database (stored refs and job status) is as before.
\<close>

theorem completion_log_failure_rolls_back:
  assumes "MkdirTemp_result e = Inr tmpPath"
    and "fetchGitHubTokenFromDB_result e = Inr ghToken"
    and "cloneRepo_result e ghToken (Repo j) tmpPath True = Inr repo"
    and "sendBatchLogMessages_err e (starting j) = None"
    and "refs_table e tmpPath = Inr rs"
    and "BeginTx_err e = None"
    and "Exec_err e = None"
    and "inputs (uuid_FromString e) j (map (selectRefs (COMMIT_FROM_TAG e)) rs) [] = Inr rows"
    and "CopyFrom_err e rows = None"
    and "SetSyncJobStatus_err e = None"
    and "sendBatchLogMessages_err e (finished j) = Some err"
  shows "fst (handleGitRefs e j w) = Some (Errorf ''log messages: '' err) \<and>
         committed (snd (handleGitRefs e j w)) = committed w \<and>
         tx (snd (handleGitRefs e j w)) = None \<and>
         calls (snd (handleGitRefs e j w)) = calls w @
           [Call_MkdirTemp, Call_fetchGitHubTokenFromDB, Call_cloneRepo ghToken (Repo j) tmpPath True,
            Call_sendBatchLogMessages (starting j), Call_SelectContext tmpPath, Call_BeginTx,
            Call_Exec_delete (UUID_String (RepoID j)), Call_CopyFrom rows,
            Call_SetSyncJobStatus ''DONE'' (ID j), Call_sendBatchLogMessages (finished j),
            Call_Rollback, Call_Free repo, Call_RemoveAll tmpPath]"
  using assms(7-)
  by (simp add: handle_reach_tx[OF assms(1-6)] tx_defs after_tx)

text \<open>On the concrete run with a log sink that refuses the completion batch.\<close>

theorem completion_log_failure_rolls_back_witness:
  "fst (handleGitRefs
          (env0\<lparr>sendBatchLogMessages_err :=
                   (\<lambda>b. if b = finished job0 then Some (Failure ''sink unavailable'') else None)\<rparr>)
          job0 world0) = Some (Errorf ''log messages: '' (Failure ''sink unavailable'')) \<and>
   committed (snd (handleGitRefs
          (env0\<lparr>sendBatchLogMessages_err :=
                   (\<lambda>b. if b = finished job0 then Some (Failure ''sink unavailable'') else None)\<rparr>)
          job0 world0)) = committed world0"
proof -
  let ?e = "env0\<lparr>sendBatchLogMessages_err :=
                   (\<lambda>b. if b = finished job0 then Some (Failure ''sink unavailable'') else None)\<rparr>"
  let ?rows = "map (input repo0) (map (selectRefs commit_from_tag0) rows0)"
  have 1: "MkdirTemp_result ?e = Inr tmp0"
    and 2: "fetchGitHubTokenFromDB_result ?e = Inr ''token''"
    and 3: "cloneRepo_result ?e ''token'' (Repo job0) tmp0 True = Inr (Repository tmp0)"
    and 4: "sendBatchLogMessages_err ?e (starting job0) = None"
    and 5: "refs_table ?e tmp0 = Inr rows0"
    and 6: "BeginTx_err ?e = None"
    and 7: "Exec_err ?e = None"
    and 9: "CopyFrom_err ?e ?rows = None"
    and 10: "SetSyncJobStatus_err ?e = None"
    and 11: "sendBatchLogMessages_err ?e (finished job0) = Some (Failure ''sink unavailable'')"
    by (simp_all add: run0 starting_neq_finished)
  have 8: "inputs (uuid_FromString ?e) job0 (map (selectRefs (COMMIT_FROM_TAG ?e)) rows0) [] = Inr ?rows"
    by (simp add: run0 inputs0 del: map_map)
  from completion_log_failure_rolls_back[OF 1 2 3 4 5 6 7 8 9 10 11, of world0]
  show ?thesis by blast
qed

subsection \<open>Progress logs\<close>

text \<open>
  C7. When the working copy is there and the start batch cannot be sent, or when
  everything up to the status update has succeeded and the completion batch cannot be
  sent, the handler returns the sink's error (prefixed \<open>log messages: \<close>) instead of
  going on, and the committed database, the job's status in it, is as before.
\<close>

theorem log_failure_fails_job:
  assumes "MkdirTemp_result e = Inr tmpPath"
    and "fetchGitHubTokenFromDB_result e = Inr ghToken"
    and "cloneRepo_result e ghToken (Repo j) tmpPath True = Inr repo"
    and "sendBatchLogMessages_err e (starting j) = Some err \<or>
         sendBatchLogMessages_err e (starting j) = None \<and>
         refs_table e tmpPath = Inr rs \<and> BeginTx_err e = None \<and> Exec_err e = None \<and>
         inputs (uuid_FromString e) j (map (selectRefs (COMMIT_FROM_TAG e)) rs) [] = Inr rows \<and>
         CopyFrom_err e rows = None \<and> SetSyncJobStatus_err e = None \<and>
         sendBatchLogMessages_err e (finished j) = Some err"
  shows "fst (handleGitRefs e j w) = Some (Errorf ''log messages: '' err) \<and>
         committed (snd (handleGitRefs e j w)) = committed w"
  using assms(4)
proof (elim disjE conjE)
  assume "sendBatchLogMessages_err e (starting j) = Some err"
  then show ?thesis
    by (simp add: handle_provisioned[OF assms(1-3)] handleGitRefs_repo_def sendBatchLogMessages_def
        called_def after_tx)
next
  assume a: "sendBatchLogMessages_err e (starting j) = None"
    "refs_table e tmpPath = Inr rs" "BeginTx_err e = None"
    and b: "Exec_err e = None"
    "inputs (uuid_FromString e) j (map (selectRefs (COMMIT_FROM_TAG e)) rs) [] = Inr rows"
    "CopyFrom_err e rows = None" "SetSyncJobStatus_err e = None"
    "sendBatchLogMessages_err e (finished j) = Some err"
  from b show ?thesis
    by (simp add: handle_reach_tx[OF assms(1-3) a] tx_defs after_tx)
qed

text \<open>On the concrete run with a log sink that refuses the start batch.\<close>

theorem log_failure_fails_job_witness:
  "fst (handleGitRefs
          (env0\<lparr>sendBatchLogMessages_err :=
                   (\<lambda>b. if b = starting job0 then Some (Failure ''sink unavailable'') else None)\<rparr>)
          job0 world0) = Some (Errorf ''log messages: '' (Failure ''sink unavailable'')) \<and>
   committed (snd (handleGitRefs
          (env0\<lparr>sendBatchLogMessages_err :=
                   (\<lambda>b. if b = starting job0 then Some (Failure ''sink unavailable'') else None)\<rparr>)
          job0 world0)) = committed world0"
proof -
  let ?e = "env0\<lparr>sendBatchLogMessages_err :=
                   (\<lambda>b. if b = starting job0 then Some (Failure ''sink unavailable'') else None)\<rparr>"
  have 1: "MkdirTemp_result ?e = Inr tmp0"
    and 2: "fetchGitHubTokenFromDB_result ?e = Inr ''token''"
    and 3: "cloneRepo_result ?e ''token'' (Repo job0) tmp0 True = Inr (Repository tmp0)"
    by (simp_all add: run0)
  have 4: "sendBatchLogMessages_err ?e (starting job0) = Some (Failure ''sink unavailable'') \<or>
         sendBatchLogMessages_err ?e (starting job0) = None \<and>
         refs_table ?e tmp0 = Inr rows0 \<and> BeginTx_err ?e = None \<and> Exec_err ?e = None \<and>
         inputs (uuid_FromString ?e) job0 (map (selectRefs (COMMIT_FROM_TAG ?e)) rows0) [] = Inr [] \<and>
         CopyFrom_err ?e [] = None \<and> SetSyncJobStatus_err ?e = None \<and>
         sendBatchLogMessages_err ?e (finished job0) = Some (Failure ''sink unavailable'')"
    by simp
  from log_failure_fails_job[OF 1 2 3 4, of world0]
  show ?thesis by blast
qed

subsection \<open>The empty repository\<close>

text \<open>
  C8. When extraction yields no ref and every collaborator succeeds, the handler
  succeeds: it deletes the stored rows of the repository, copies zero rows, sets the job
  DONE and commits; the repository is left with no stored ref.
\<close>

theorem empty_repository_reaches_DONE:
  assumes "MkdirTemp_result e = Inr tmpPath"
    and "fetchGitHubTokenFromDB_result e = Inr ghToken"
    and "cloneRepo_result e ghToken (Repo j) tmpPath True = Inr repo"
    and "sendBatchLogMessages_err e (starting j) = None"
    and "refs_table e tmpPath = Inr []"
    and "BeginTx_err e = None"
    and "Exec_err e = None"
    and "CopyFrom_err e [] = None"
    and "SetSyncJobStatus_err e = None"
    and "sendBatchLogMessages_err e (finished j) = None"
    and "Commit_err e = None"
  shows "fst (handleGitRefs e j w) = None \<and>
         git_refs (committed (snd (handleGitRefs e j w))) =
           filter (\<lambda>row. \<not> repo_id_is (UUID_String (RepoID j)) row) (git_refs (committed w)) \<and>
         filter (repo_id_is (UUID_String (RepoID j)))
           (git_refs (committed (snd (handleGitRefs e j w)))) = [] \<and>
         sync_status (committed (snd (handleGitRefs e j w))) =
           (sync_status (committed w))(ID j := ''DONE'') \<and>
         tx (snd (handleGitRefs e j w)) = None \<and>
         calls (snd (handleGitRefs e j w)) = calls w @
           [Call_MkdirTemp, Call_fetchGitHubTokenFromDB, Call_cloneRepo ghToken (Repo j) tmpPath True,
            Call_sendBatchLogMessages (starting j), Call_SelectContext tmpPath, Call_BeginTx,
            Call_Exec_delete (UUID_String (RepoID j)), Call_CopyFrom [],
            Call_SetSyncJobStatus ''DONE'' (ID j), Call_sendBatchLogMessages (finished j),
            Call_Commit, Call_Rollback, Call_Free repo, Call_RemoveAll tmpPath]"
  using assms(7-)
  by (simp add: handle_reach_tx[OF assms(1-6)] tx_defs after_tx filter_repo_deleted)

text \<open>On the concrete run with an empty repository.\<close>

theorem empty_repository_reaches_DONE_witness:
  "fst (handleGitRefs (env0\<lparr>refs_table := (\<lambda>tmpPath. Inr [])\<rparr>) job0 world0) = None \<and>
   filter (repo_id_is (UUID_String (RepoID job0)))
     (git_refs (committed (snd (handleGitRefs (env0\<lparr>refs_table := (\<lambda>tmpPath. Inr [])\<rparr>) job0 world0)))) = [] \<and>
   sync_status (committed (snd (handleGitRefs (env0\<lparr>refs_table := (\<lambda>tmpPath. Inr [])\<rparr>) job0 world0))) =
     (sync_status (committed world0))(ID job0 := ''DONE'')"
proof -
  let ?e = "env0\<lparr>refs_table := (\<lambda>tmpPath. Inr [])\<rparr>"
  have 1: "MkdirTemp_result ?e = Inr tmp0"
    and 2: "fetchGitHubTokenFromDB_result ?e = Inr ''token''"
    and 3: "cloneRepo_result ?e ''token'' (Repo job0) tmp0 True = Inr (Repository tmp0)"
    and 4: "sendBatchLogMessages_err ?e (starting job0) = None"
    and 5: "refs_table ?e tmp0 = Inr []"
    and 6: "BeginTx_err ?e = None"
    and 7: "Exec_err ?e = None"
    and 8: "CopyFrom_err ?e [] = None"
    and 9: "SetSyncJobStatus_err ?e = None"
    and 10: "sendBatchLogMessages_err ?e (finished job0) = None"
    and 11: "Commit_err ?e = None"
    by (simp_all add: run0)
  from empty_repository_reaches_DONE[OF 1 2 3 4 5 6 7 8 9 10 11, of world0]
  show ?thesis by blast
qed

subsection \<open>The working directory\<close>

text \<open>
  C5. Once \<^verbatim>\<open>os.MkdirTemp\<close> has created the directory, on every path through the
  handler \<^verbatim>\<open>os.RemoveAll\<close> of that directory is the last call of the handler and is
  called exactly once. Whether the removal succeeds or fails changes neither the error
  the handler returns nor the committed database nor the log sink; a failure is written
  to the operator log, a success leaves no directory.
\<close>

theorem workspace_removed_once_last:
  assumes "MkdirTemp_result e = Inr tmpPath"
  shows "(\<exists>t. calls (snd (handleGitRefs e j w)) = calls w @ t @ [Call_RemoveAll tmpPath] \<and>
              Call_RemoveAll tmpPath \<notin> set t) \<and>
         fst (handleGitRefs (e\<lparr>RemoveAll_err := x\<rparr>) j w) = fst (handleGitRefs e j w) \<and>
         committed (snd (handleGitRefs (e\<lparr>RemoveAll_err := x\<rparr>) j w)) =
           committed (snd (handleGitRefs e j w)) \<and>
         sync_logs (snd (handleGitRefs (e\<lparr>RemoveAll_err := x\<rparr>) j w)) =
           sync_logs (snd (handleGitRefs e j w)) \<and>
         (RemoveAll_err e = None \<longrightarrow> tmpPath \<notin> dirs (snd (handleGitRefs e j w))) \<and>
         (\<forall>err. RemoveAll_err e = Some err \<longrightarrow>
            last (oplog (snd (handleGitRefs e j w))) = Err_cleaning_up_repo tmpPath err)"
proof -
  let ?w1 = "(called Call_MkdirTemp w)\<lparr>dirs := insert tmpPath (dirs w)\<rparr>"
  obtain r w2 where tmp: "handleGitRefs_tmp e j tmpPath ?w1 = (r, w2)" by force
  have h: "handleGitRefs e j w = (r, defer_RemoveAll e tmpPath w2)"
    using assms tmp by (simp add: handleGitRefs_def MkdirTemp_def)
  have h': "handleGitRefs (e\<lparr>RemoveAll_err := x\<rparr>) j w =
              (r, defer_RemoveAll (e\<lparr>RemoveAll_err := x\<rparr>) tmpPath w2)"
    using assms tmp by (simp add: handleGitRefs_def MkdirTemp_def tmp_RemoveAll_err)
  from tmp_calls[OF tmp] obtain t where t: "calls w2 = calls ?w1 @ t" "\<forall>q. Call_RemoveAll q \<notin> set t"
    by blast
  have "calls (snd (handleGitRefs e j w)) = calls w @ (Call_MkdirTemp # t) @ [Call_RemoveAll tmpPath] \<and>
        Call_RemoveAll tmpPath \<notin> set (Call_MkdirTemp # t)"
    using t by (simp add: h defer_RemoveAll_proj called_def)
  then have "\<exists>t. calls (snd (handleGitRefs e j w)) = calls w @ t @ [Call_RemoveAll tmpPath] \<and>
              Call_RemoveAll tmpPath \<notin> set t" by blast
  then show ?thesis
    by (simp add: h h' defer_RemoveAll_proj defer_RemoveAll_upd)
qed

text \<open>On the concrete run with a removal that fails, against the same run where it succeeds.\<close>

theorem workspace_removed_once_last_witness:
  "fst (handleGitRefs (env0\<lparr>RemoveAll_err := Some (Failure ''device busy'')\<rparr>) job0 world0) =
     fst (handleGitRefs (env0\<lparr>RemoveAll_err := None\<rparr>) job0 world0) \<and>
   committed (snd (handleGitRefs (env0\<lparr>RemoveAll_err := Some (Failure ''device busy'')\<rparr>) job0 world0)) =
     committed (snd (handleGitRefs (env0\<lparr>RemoveAll_err := None\<rparr>) job0 world0)) \<and>
   last (oplog (snd (handleGitRefs (env0\<lparr>RemoveAll_err := Some (Failure ''device busy'')\<rparr>) job0 world0))) =
     Err_cleaning_up_repo tmp0 (Failure ''device busy'') \<and>
   tmp0 \<notin> dirs (snd (handleGitRefs (env0\<lparr>RemoveAll_err := None\<rparr>) job0 world0))"
proof -
  have 1: "MkdirTemp_result (env0\<lparr>RemoveAll_err := Some (Failure ''device busy'')\<rparr>) = Inr tmp0"
    and 2: "MkdirTemp_result (env0\<lparr>RemoveAll_err := None\<rparr>) = Inr tmp0"
    by (simp_all add: run0)
  from workspace_removed_once_last[OF 1, of job0 world0 None]
    workspace_removed_once_last[OF 2, of job0 world0 None]
  show ?thesis by simp
qed

subsection \<open>Which error the handler returns\<close>

text \<open>
  C6, as stated, fails: an error that aborts the job is not wrapped with job or
  repository context. When \<^verbatim>\<open>os.MkdirTemp\<close> fails the handler returns the very error
  value it got.
\<close>

theorem mkdir_error_returned_bare:
  "MkdirTemp_result (env0\<lparr>MkdirTemp_result := Inl (Failure ''no space left on device'')\<rparr>) =
     Inl (Failure ''no space left on device'') \<and>
   fst (handleGitRefs (env0\<lparr>MkdirTemp_result := Inl (Failure ''no space left on device'')\<rparr>)
          job0 world0) = Some (Failure ''no space left on device'')"
  by (simp add: handleGitRefs_def MkdirTemp_def)

text \<open>
  The result and the trace of the part inside the transaction, by the answers of the
  collaborators.
\<close>

lemma tx_run:
  assumes "tx w \<noteq> None"
  shows "(fst (handleGitRefs_tx e j refs w), calls (snd (handleGitRefs_tx e j refs w))) =
   (case Exec_err e of
      Some err \<Rightarrow> (Some err, calls w @ [Call_Exec_delete (UUID_String (RepoID j))])
    | None \<Rightarrow>
   (case (if refs = [] then Inr []
          else (case uuid_FromString e (UUID_String (RepoID j)) of
                  Inl err \<Rightarrow> Inl err
                | Inr u \<Rightarrow> Inr (map (input u) refs))) of
      Inl err \<Rightarrow> (Some err, calls w @ [Call_Exec_delete (UUID_String (RepoID j))])
    | Inr rows \<Rightarrow>
   (case CopyFrom_err e rows of
      Some err \<Rightarrow> (Some err, calls w @ [Call_Exec_delete (UUID_String (RepoID j)), Call_CopyFrom rows])
    | None \<Rightarrow>
   (case SetSyncJobStatus_err e of
      Some err \<Rightarrow> (Some err, calls w @ [Call_Exec_delete (UUID_String (RepoID j)), Call_CopyFrom rows,
                                 Call_SetSyncJobStatus ''DONE'' (ID j)])
    | None \<Rightarrow>
   (case sendBatchLogMessages_err e (finished j) of
      Some err \<Rightarrow> (Some (Errorf ''log messages: '' err),
                   calls w @ [Call_Exec_delete (UUID_String (RepoID j)), Call_CopyFrom rows,
                              Call_SetSyncJobStatus ''DONE'' (ID j),
                              Call_sendBatchLogMessages (finished j)])
    | None \<Rightarrow> (Commit_err e,
                calls w @ [Call_Exec_delete (UUID_String (RepoID j)), Call_CopyFrom rows,
                           Call_SetSyncJobStatus ''DONE'' (ID j),
                           Call_sendBatchLogMessages (finished j), Call_Commit]))))))"
  using assms
  by (auto simp: tx_defs inputs_eq split: option.splits sum.splits)

lemmas tx_run_eqs = tx_run[unfolded prod_eq_iff fst_conv snd_conv]

text \<open>
  C6, amended. Every error that aborts the job is returned to the caller as the failing
  call produced it, except that a clone error is prefixed \<open>git clone: \<close> and a log-sink
  error \<open>log messages: \<close>; neither prefix carries the job or the repository. The
  handler performs no internal retries: the first call that fails ends the run, and what
  the handler calls after it are only the deferred releases of what it had acquired
  (rollback, free, removal of the directory). The equation gives, for every combination
  of answers, the error returned and the complete sequence of calls; the parse of the
  repository id, which the loop of the bulk insert makes once per ref, returns its error
  at once and the copy is then not attempted.
\<close>

theorem errors_returned_bare_or_prefixed:
  "(fst (handleGitRefs e j w), calls (snd (handleGitRefs e j w))) =
   (case MkdirTemp_result e of
      Inl err \<Rightarrow> (Some err,
        calls w @ [Call_MkdirTemp])
    | Inr tmpPath \<Rightarrow>
   (case fetchGitHubTokenFromDB_result e of
      Inl err \<Rightarrow> (Some err,
        calls w @ [Call_MkdirTemp, Call_fetchGitHubTokenFromDB, Call_RemoveAll tmpPath])
    | Inr ghToken \<Rightarrow>
   (case cloneRepo_result e ghToken (Repo j) tmpPath True of
      Inl err \<Rightarrow> (Some (Errorf ''git clone: '' err),
        calls w @ [Call_MkdirTemp, Call_fetchGitHubTokenFromDB,
          Call_cloneRepo ghToken (Repo j) tmpPath True, Call_RemoveAll tmpPath])
    | Inr repo \<Rightarrow>
   (case sendBatchLogMessages_err e (starting j) of
      Some err \<Rightarrow> (Some (Errorf ''log messages: '' err),
        calls w @ [Call_MkdirTemp, Call_fetchGitHubTokenFromDB,
          Call_cloneRepo ghToken (Repo j) tmpPath True, Call_sendBatchLogMessages (starting j),
          Call_Free repo, Call_RemoveAll tmpPath])
    | None \<Rightarrow>
   (case refs_table e tmpPath of
      Inl err \<Rightarrow> (Some err,
        calls w @ [Call_MkdirTemp, Call_fetchGitHubTokenFromDB,
          Call_cloneRepo ghToken (Repo j) tmpPath True, Call_sendBatchLogMessages (starting j),
          Call_SelectContext tmpPath, Call_Free repo, Call_RemoveAll tmpPath])
    | Inr rs \<Rightarrow>
   (case BeginTx_err e of
      Some err \<Rightarrow> (Some err,
        calls w @ [Call_MkdirTemp, Call_fetchGitHubTokenFromDB,
          Call_cloneRepo ghToken (Repo j) tmpPath True, Call_sendBatchLogMessages (starting j),
          Call_SelectContext tmpPath, Call_BeginTx, Call_Free repo, Call_RemoveAll tmpPath])
    | None \<Rightarrow>
   (case Exec_err e of
      Some err \<Rightarrow> (Some err,
        calls w @ [Call_MkdirTemp, Call_fetchGitHubTokenFromDB,
          Call_cloneRepo ghToken (Repo j) tmpPath True, Call_sendBatchLogMessages (starting j),
          Call_SelectContext tmpPath, Call_BeginTx, Call_Exec_delete (UUID_String (RepoID j)),
          Call_Rollback, Call_Free repo, Call_RemoveAll tmpPath])
    | None \<Rightarrow>
   (case (if rs = [] then Inr []
          else (case uuid_FromString e (UUID_String (RepoID j)) of
                  Inl err \<Rightarrow> Inl err
                | Inr u \<Rightarrow> Inr (map (input u) (map (selectRefs (COMMIT_FROM_TAG e)) rs)))) of
      Inl err \<Rightarrow> (Some err,
        calls w @ [Call_MkdirTemp, Call_fetchGitHubTokenFromDB,
          Call_cloneRepo ghToken (Repo j) tmpPath True, Call_sendBatchLogMessages (starting j),
          Call_SelectContext tmpPath, Call_BeginTx, Call_Exec_delete (UUID_String (RepoID j)),
          Call_Rollback, Call_Free repo, Call_RemoveAll tmpPath])
    | Inr rows \<Rightarrow>
   (case CopyFrom_err e rows of
      Some err \<Rightarrow> (Some err,
        calls w @ [Call_MkdirTemp, Call_fetchGitHubTokenFromDB,
          Call_cloneRepo ghToken (Repo j) tmpPath True, Call_sendBatchLogMessages (starting j),
          Call_SelectContext tmpPath, Call_BeginTx, Call_Exec_delete (UUID_String (RepoID j)),
          Call_CopyFrom rows, Call_Rollback, Call_Free repo, Call_RemoveAll tmpPath])
    | None \<Rightarrow>
   (case SetSyncJobStatus_err e of
      Some err \<Rightarrow> (Some err,
        calls w @ [Call_MkdirTemp, Call_fetchGitHubTokenFromDB,
          Call_cloneRepo ghToken (Repo j) tmpPath True, Call_sendBatchLogMessages (starting j),
          Call_SelectContext tmpPath, Call_BeginTx, Call_Exec_delete (UUID_String (RepoID j)),
          Call_CopyFrom rows, Call_SetSyncJobStatus ''DONE'' (ID j), Call_Rollback,
          Call_Free repo, Call_RemoveAll tmpPath])
    | None \<Rightarrow>
   (case sendBatchLogMessages_err e (finished j) of
      Some err \<Rightarrow> (Some (Errorf ''log messages: '' err),
        calls w @ [Call_MkdirTemp, Call_fetchGitHubTokenFromDB,
          Call_cloneRepo ghToken (Repo j) tmpPath True, Call_sendBatchLogMessages (starting j),
          Call_SelectContext tmpPath, Call_BeginTx, Call_Exec_delete (UUID_String (RepoID j)),
          Call_CopyFrom rows, Call_SetSyncJobStatus ''DONE'' (ID j),
          Call_sendBatchLogMessages (finished j), Call_Rollback, Call_Free repo,
          Call_RemoveAll tmpPath])
    | None \<Rightarrow> (Commit_err e,
        calls w @ [Call_MkdirTemp, Call_fetchGitHubTokenFromDB,
          Call_cloneRepo ghToken (Repo j) tmpPath True, Call_sendBatchLogMessages (starting j),
          Call_SelectContext tmpPath, Call_BeginTx, Call_Exec_delete (UUID_String (RepoID j)),
          Call_CopyFrom rows, Call_SetSyncJobStatus ''DONE'' (ID j),
          Call_sendBatchLogMessages (finished j), Call_Commit, Call_Rollback, Call_Free repo,
          Call_RemoveAll tmpPath]))))))))))))"
proof (cases "MkdirTemp_result e")
  case (Inl err)
  then show ?thesis by (simp add: handleGitRefs_def MkdirTemp_def called_def)
next
  case mk: (Inr tmpPath)
  show ?thesis
  proof (cases "fetchGitHubTokenFromDB_result e")
    case (Inl err)
    with mk show ?thesis
      by (simp add: handleGitRefs_def handleGitRefs_tmp_def MkdirTemp_def
          fetchGitHubTokenFromDB_def called_def defer_RemoveAll_proj)
  next
    case ft: (Inr ghToken)
    show ?thesis
    proof (cases "cloneRepo_result e ghToken (Repo j) tmpPath True")
      case (Inl err)
      with mk ft show ?thesis
        by (simp add: handleGitRefs_def handleGitRefs_tmp_def MkdirTemp_def
            fetchGitHubTokenFromDB_def cloneRepo_def called_def defer_RemoveAll_proj)
    next
      case cl: (Inr repo)
      note prov = handle_provisioned[OF mk ft cl]
      show ?thesis
      proof (cases "sendBatchLogMessages_err e (starting j)")
        case (Some err)
        with mk ft cl show ?thesis
          by (simp add: prov handleGitRefs_repo_def sendBatchLogMessages_def called_def after_tx)
      next
        case st: None
        show ?thesis
        proof (cases "refs_table e tmpPath")
          case (Inl err)
          with mk ft cl st show ?thesis
            by (simp add: prov handleGitRefs_repo_def sendBatchLogMessages_def SelectContext_def
                called_def after_tx)
        next
          case rt: (Inr rs)
          show ?thesis
          proof (cases "BeginTx_err e")
            case (Some err)
            with mk ft cl st rt show ?thesis
              by (simp add: prov handleGitRefs_repo_def sendBatchLogMessages_def SelectContext_def
                  BeginTx_def called_def logged_def after_tx)
          next
            case bt: None
            show ?thesis
              by (simp add: handle_reach_tx[OF mk ft cl st rt bt] mk ft cl st rt bt split_beta
                  after_tx tx_run_eqs split: option.split sum.split)
          qed
        qed
      qed
    qed
  qed
qed

text \<open>
  On the concrete run with a clone that fails, and with a repository id that does not
  parse: the error returned and the calls made.
\<close>

theorem errors_returned_bare_or_prefixed_witness:
  "fst (handleGitRefs
          (env0\<lparr>cloneRepo_result := (\<lambda>ghToken url tmpPath bare. Inl (Failure ''authentication required''))\<rparr>)
          job0 world0) = Some (Errorf ''git clone: '' (Failure ''authentication required'')) \<and>
   calls (snd (handleGitRefs
          (env0\<lparr>cloneRepo_result := (\<lambda>ghToken url tmpPath bare. Inl (Failure ''authentication required''))\<rparr>)
          job0 world0)) =
     [Call_MkdirTemp, Call_fetchGitHubTokenFromDB, Call_cloneRepo ''token'' (Repo job0) tmp0 True,
      Call_RemoveAll tmp0] \<and>
   fst (handleGitRefs (env0\<lparr>uuid_FromString := (\<lambda>s. Inl (Failure ''uuid: incorrect UUID length''))\<rparr>)
          job0 world0) = Some (Failure ''uuid: incorrect UUID length'') \<and>
   calls (snd (handleGitRefs (env0\<lparr>uuid_FromString := (\<lambda>s. Inl (Failure ''uuid: incorrect UUID length''))\<rparr>)
          job0 world0)) =
     [Call_MkdirTemp, Call_fetchGitHubTokenFromDB, Call_cloneRepo ''token'' (Repo job0) tmp0 True,
      Call_sendBatchLogMessages (starting job0), Call_SelectContext tmp0, Call_BeginTx,
      Call_Exec_delete (UUID_String (RepoID job0)), Call_Rollback, Call_Free (Repository tmp0),
      Call_RemoveAll tmp0]"
proof -
  have w: "calls world0 = []" by (simp add: world0_def)
  have n: "rows0 \<noteq> []" by (simp add: rows0_def)
  from errors_returned_bare_or_prefixed[of
      "env0\<lparr>cloneRepo_result := (\<lambda>ghToken url tmpPath bare. Inl (Failure ''authentication required''))\<rparr>"
      job0 world0]
    errors_returned_bare_or_prefixed[of
      "env0\<lparr>uuid_FromString := (\<lambda>s. Inl (Failure ''uuid: incorrect UUID length''))\<rparr>" job0 world0]
  show ?thesis by (simp add: run0 w n)
qed

end
